theory Spec2Isabelle
  imports Main
begin

section \<open>Time: Python's datetime and timedelta\<close>

text \<open>
  A \<open>datetime\<close> has microsecond resolution; it is modelled as the number of microseconds
  since a fixed origin.  The difference of two datetimes is a \<open>timedelta\<close>, which Python
  keeps normalised as (days, seconds, microseconds) with \<open>0 \<le> seconds < 86400\<close> and
  \<open>0 \<le> microseconds < 1000000\<close>; \<open>days\<close> carries the sign.  The attribute
  \<open>.seconds\<close> is the middle component only.
\<close>

type_synonym datetime = int
type_synonym timedelta = int

definition days :: "timedelta \<Rightarrow> int" where
  "days d = d div 86400000000"

definition seconds :: "timedelta \<Rightarrow> int" where
  "seconds d = (d div 1000000) mod 86400"

definition microseconds :: "timedelta \<Rightarrow> int" where
  "microseconds d = d mod 1000000"

text \<open>The timedelta built from its three normalised components.\<close>

definition timedelta :: "int \<Rightarrow> int \<Rightarrow> int \<Rightarrow> timedelta" where
  "timedelta d s us = d * 86400000000 + s * 1000000 + us"

section \<open>Exceptions, log and status board\<close>

text \<open>
  The exception classes that the modelled code raises or that its collaborators may raise.
  \<open>KeyboardInterrupt\<close>, \<open>SystemExit\<close> and \<open>GeneratorExit\<close> derive from
  \<open>BaseException\<close> but not from \<open>Exception\<close>; an \<open>except Exception\<close> clause does
  not catch them.
\<close>

datatype exn =
    NotImplementedError
  | StopIteration
  | KeyError
  | FileNotFoundError
  | NextcloudError
  | KeyboardInterrupt
  | SystemExit
  | GeneratorExit

fun isinstance_Exception :: "exn \<Rightarrow> bool" where
  "isinstance_Exception KeyboardInterrupt = False"
| "isinstance_Exception SystemExit = False"
| "isinstance_Exception GeneratorExit = False"
| "isinstance_Exception _ = True"

datatype level = DEBUG | INFO | WARNING | ERROR

text \<open>
  The logger is a collaborator; the log is the list of the calls made on it.  A call has
  a level, a message, and the exception passed as \<open>exc_info\<close> if any.
\<close>

datatype log_entry = Entry level string "exn option"

type_synonym logger = "log_entry list"

definition log_debug :: "string \<Rightarrow> logger \<Rightarrow> logger" where
  "log_debug msg L = L @ [Entry DEBUG msg None]"

definition log_info :: "string \<Rightarrow> logger \<Rightarrow> logger" where
  "log_info msg L = L @ [Entry INFO msg None]"

definition log_warning :: "string \<Rightarrow> logger \<Rightarrow> logger" where
  "log_warning msg L = L @ [Entry WARNING msg None]"

definition log_error :: "string \<Rightarrow> exn option \<Rightarrow> logger \<Rightarrow> logger" where
  "log_error msg exc_info L = L @ [Entry ERROR msg exc_info]"

text \<open>Values stored in a board record: Python strings and numbers.\<close>

datatype pyval = PyStr string | PyInt int

type_synonym record_dict = "string \<rightharpoonup> pyval"

record board =
  topics :: "string \<rightharpoonup> record_dict"
  messages :: "string list"

text \<open>
  Modelled from the spec: the status board class is not among the source files.  Its
  contract is \<open>set(topic, record)\<close> -- replace; \<open>update(topic, partialRecord)\<close> --
  merge into the existing record, creating it if absent; \<open>messages.put(text)\<close> --
  append a diagnostic string to an unbounded queue.
\<close>

definition Board_set :: "string \<Rightarrow> record_dict \<Rightarrow> board \<Rightarrow> board" where
  "Board_set topic r b = b\<lparr>topics := (topics b)(topic \<mapsto> r)\<rparr>"

definition Board_update :: "string \<Rightarrow> record_dict \<Rightarrow> board \<Rightarrow> board" where
  "Board_update topic r b =
     b\<lparr>topics := (topics b)(topic \<mapsto>
          (case topics b topic of None \<Rightarrow> r | Some old \<Rightarrow> old ++ r))\<rparr>"

definition Board_messages_put :: "string \<Rightarrow> board \<Rightarrow> board" where
  "Board_messages_put msg b = b\<lparr>messages := messages b @ [msg]\<rparr>"

text \<open>Reading one field of a topic's record, \<open>None\<close> when topic or field is absent.\<close>

definition board_field :: "board \<Rightarrow> string \<Rightarrow> string \<Rightarrow> pyval option" where
  "board_field b topic k = (case topics b topic of None \<Rightarrow> None | Some r \<Rightarrow> r k)"

section \<open>BaseJob\<close>

text \<open>
  The attributes of a \<open>BaseJob\<close> instance.  Subclasses add attributes by extending the
  record.  \<open>interval\<close> is \<open>None\<close> or a number of seconds.
\<close>

record job =
  interval :: "int option"
  last_run :: datetime

text \<open>\<open>BaseJob.__init__\<close>; \<open>now\<close> is the value \<open>dt.now()\<close> returns in it.\<close>

definition BaseJob_init :: "int option \<Rightarrow> datetime \<Rightarrow> job" where
  "BaseJob_init initial_interval now = \<lparr>interval = initial_interval, last_run = now\<rparr>"

text \<open>\<open>BaseJob.is_due\<close>; \<open>now\<close> is the value \<open>dt.now()\<close> returns in it.\<close>

definition is_due :: "datetime \<Rightarrow> 'a job_scheme \<Rightarrow> bool" where
  "is_due now self =
     (case interval self of
        None \<Rightarrow> False
      | Some i \<Rightarrow> seconds (now - last_run self) > i)"

text \<open>
  The due check in the words of the specification, for comparison: false without an
  interval, otherwise true iff the elapsed time strictly exceeds the interval (seconds).
\<close>

definition is_due_spec :: "datetime \<Rightarrow> 'a job_scheme \<Rightarrow> bool" where
  "is_due_spec now self =
     (case interval self of
        None \<Rightarrow> False
      | Some i \<Rightarrow> now - last_run self > i * 1000000)"


section \<open>Running a job\<close>

text \<open>
  What an execution body can touch: the job instance itself, the status board and the
  log.  A body returns the exception it raised, if any, together with the state at the
  moment it returned or raised: assignments made before a raise stay in place.
\<close>

record 'j st =
  self :: 'j
  brd :: board
  lg :: logger

type_synonym config = "string \<rightharpoonup> (string \<rightharpoonup> string)"
type_synonym kwargs = "string \<rightharpoonup> string"

type_synonym 'j body = "config \<Rightarrow> kwargs \<Rightarrow> 'j st \<Rightarrow> exn option \<times> 'j st"

text \<open>
  A job class: its \<open>name\<close> attribute, its constructor (\<open>job()\<close>, given what
  \<open>dt.now()\<close> returns in \<open>BaseJob.__init__\<close>) and its \<open>_run\<close> method.
\<close>

record 'j job_class =
  name :: string
  init :: "datetime \<Rightarrow> 'j"
  body :: "'j body"

text \<open>\<open>BaseJob._run\<close>\<close>

definition BaseJob_run :: "('a job_scheme) body" where
  "BaseJob_run cfg kwargs s = (Some NotImplementedError, s)"

text \<open>
  \<open>BaseJob.run\<close>; \<open>now\<close> is the value \<open>dt.now()\<close> returns in it.  When the body
  raises, the exception leaves \<open>run\<close> and the closing debug line is not logged.
\<close>

definition run ::
  "('a job_scheme) job_class \<Rightarrow> datetime \<Rightarrow> config \<Rightarrow> kwargs \<Rightarrow> ('a job_scheme) st
     \<Rightarrow> exn option \<times> ('a job_scheme) st" where
  "run cls now cfg kwargs s =
     (let s1 = s\<lparr>lg := log_debug (''starting worker job: '' @ name cls) (lg s)\<rparr>;
          s2 = s1\<lparr>self := (self s1)\<lparr>last_run := now\<rparr>\<rparr>
      in case body cls cfg kwargs s2 of
           (Some e, s3) \<Rightarrow> (Some e, s3)
         | (None, s3) \<Rightarrow>
             (None, s3\<lparr>lg := log_debug (''finished worker job: '' @ name cls) (lg s3)\<rparr>))"

section \<open>LEDJob\<close>

definition LEDJob_run :: "job body" where
  "LEDJob_run cfg kwargs s = (None, s\<lparr>self := (self s)\<lparr>interval := None\<rparr>\<rparr>)"

definition LEDJob :: "job job_class" where
  "LEDJob = \<lparr>name = ''LED'', init = BaseJob_init (Some 1), body = LEDJob_run\<rparr>"

section \<open>HardwareStatusUpdateJob\<close>

text \<open>
  \<open>str.strip()\<close> without argument removes leading and trailing whitespace, that is
  the characters for which \<open>str.isspace()\<close> holds.  A \<open>char\<close> is a code point
  below 256; among these the whitespace characters are U+0009 to U+000D, U+001C to
  U+001F, U+0020, U+0085 and U+00A0.
\<close>

definition is_space :: "char \<Rightarrow> bool" where
  "is_space c =
     (c \<in> set [CHR '' '', CHR 0x09, CHR 0x0A, CHR 0x0B, CHR 0x0C, CHR 0x0D,
                CHR 0x1C, CHR 0x1D, CHR 0x1E, CHR 0x1F, CHR 0x85, CHR 0xA0])"

definition strip :: "string \<Rightarrow> string" where
  "strip t = rev (dropWhile is_space (rev (dropWhile is_space t)))"

text \<open>
  The file system is a collaborator: \<open>read_text p\<close> is what \<open>Path(p).read_text()\<close>
  returns or raises.
\<close>

definition HardwareStatusUpdateJob_run :: "(string \<Rightarrow> exn + string) \<Rightarrow> job body" where
  "HardwareStatusUpdateJob_run read_text cfg kwargs s =
     (case read_text ''/sys/class/hwmon/hwmon0/temp1_input'' of
        Inl e \<Rightarrow> (Some e, s)
      | Inr txt \<Rightarrow>
          (None, s\<lparr>brd := Board_set ''hwinfo'' [''temp'' \<mapsto> PyStr (strip txt)] (brd s)\<rparr>))"

definition HardwareStatusUpdateJob :: "(string \<Rightarrow> exn + string) \<Rightarrow> job job_class" where
  "HardwareStatusUpdateJob read_text =
     \<lparr>name = ''HardwareStatusUpdate'', init = BaseJob_init (Some 7200),
      body = HardwareStatusUpdateJob_run read_text\<rparr>"

section \<open>BackupRestoreJob\<close>

text \<open>
  A progress record as the operation yields it: \<open>(state, (who, what), percent)\<close>.
\<close>

type_synonym progress = "string \<times> (string \<times> string) \<times> int"

text \<open>
  Modelled from the spec: \<open>RawBackupRestore\<close> is not among the source files.  Its
  \<open>full_export(path)\<close> and \<open>full_import(path)\<close> return a lazy, finite, not restartable
  sequence of progress records that signals completion by exhaustion.  A generator is
  modelled by the list of records it has yet to yield, and the two operations are
  parameters.
\<close>

type_synonym generator = "progress list"

record ctrl =
  full_export :: "string \<Rightarrow> generator"
  full_import :: "string \<Rightarrow> generator"

text \<open>\<open>next(it)\<close>: the record and the advanced generator, or \<open>StopIteration\<close>.\<close>

fun next_py :: "generator \<Rightarrow> exn + (progress \<times> generator)" where
  "next_py [] = Inl StopIteration"
| "next_py (x # xs) = Inr (x, xs)"

record BackupRestoreJob = job +
  iterator :: "generator option"

definition BackupRestoreJob_init :: "datetime \<Rightarrow> BackupRestoreJob" where
  "BackupRestoreJob_init now = \<lparr>interval = None, last_run = now, iterator = None\<rparr>"

text \<open>The two diagnostic messages; \<open>CHR 0x27\<close> is the apostrophe.\<close>

definition msg_missing_args :: string where
  "msg_missing_args =
     ''Requested starting BackupRestore-Job without 'tar_path' and/or 'mode' arg''"

definition msg_bad_mode :: string where
  "msg_bad_mode =
     CHR 0x27 # ''mode' arg needs to be either 'backup' or 'restore'' @ [CHR 0x27]"

text \<open>
  \<open>BackupRestoreJob._run\<close>.  A generator object is always truthy, so
  \<open>not self.iterator\<close> holds exactly when the attribute is \<open>None\<close>.  The lookups
  \<open>kwargs["tar_path"]\<close> and \<open>kwargs["mode"]\<close> raise \<open>KeyError\<close> on a missing key.
\<close>

definition BackupRestoreJob_run :: "ctrl \<Rightarrow> BackupRestoreJob body" where
  "BackupRestoreJob_run c cfg kwargs s =
     (if iterator (self s) = None \<and> (kwargs ''tar_path'' = None \<or> kwargs ''mode'' = None) then
        (let msg = msg_missing_args
         in (None, s\<lparr>lg := log_error msg None (lg s), brd := Board_messages_put msg (brd s)\<rparr>))
      else if iterator (self s) = None
              \<and> kwargs ''mode'' \<notin> set [Some ''backup'', Some ''restore''] then
        (let msg = msg_bad_mode
         in (None, s\<lparr>lg := log_error msg None (lg s), brd := Board_messages_put msg (brd s)\<rparr>))
      else
        (case iterator (self s) of
           None \<Rightarrow>
             (case (kwargs ''tar_path'', kwargs ''mode'') of
                (Some tar_path, Some mode) \<Rightarrow>
                  (let b = Board_update ''backup_restore''
                             [''state'' \<mapsto> PyStr ''starting'',
                              ''percent'' \<mapsto> PyStr ''0'',
                              ''who'' \<mapsto> PyStr ''all'',
                              ''tar_path'' \<mapsto> PyStr tar_path,
                              ''what'' \<mapsto> PyStr (if mode = ''backup'' then ''export'' else ''import''),
                              ''mode'' \<mapsto> PyStr mode] (brd s);
                       it = (if mode = ''backup'' then full_export c tar_path
                             else full_import c tar_path)
                   in (None, s\<lparr>brd := b,
                                self := (self s)\<lparr>iterator := Some it, interval := Some 1\<rparr>\<rparr>))
              | _ \<Rightarrow> (Some KeyError, s))
         | Some it \<Rightarrow>
             (case next_py it of
                Inr ((state, (who, what), percent), it') \<Rightarrow>
                  (None, s\<lparr>self := (self s)\<lparr>iterator := Some it'\<rparr>,
                            brd := Board_set ''backup_restore''
                                     [''state'' \<mapsto> PyStr state,
                                      ''who'' \<mapsto> PyStr who,
                                      ''what'' \<mapsto> PyStr what,
                                      ''percent'' \<mapsto> PyInt percent] (brd s)\<rparr>)
              | Inl e \<Rightarrow>
                  (if e = StopIteration then
                     (None, s\<lparr>self := (self s)\<lparr>iterator := None, interval := None\<rparr>\<rparr>)
                   else (Some e, s)))))"

definition BackupRestoreJob_cls :: "ctrl \<Rightarrow> BackupRestoreJob job_class" where
  "BackupRestoreJob_cls c =
     \<lparr>name = ''BackupRestore'', init = BackupRestoreJob_init, body = BackupRestoreJob_run c\<rparr>"

section \<open>JobManager\<close>

text \<open>
  \<open>self.jobs\<close> is a Python dict: it keeps its keys in the order of their first
  insertion, and assigning to an existing key replaces the value in place.
\<close>

fun dict_set :: "'k \<Rightarrow> 'v \<Rightarrow> ('k \<times> 'v) list \<Rightarrow> ('k \<times> 'v) list" where
  "dict_set k v [] = [(k, v)]"
| "dict_set k v ((k', v') # kvs) =
     (if k' = k then (k, v) # kvs else (k', v') # dict_set k v kvs)"

text \<open>A registered job: the instance's class and its attributes.\<close>

type_synonym 'j job_instance = "'j job_class \<times> 'j"

record 'j manager =
  cfg :: config
  jobs :: "(string \<times> 'j job_instance) list"
  board :: board

text \<open>\<open>JobManager.__init__\<close>\<close>

definition JobManager :: "config \<Rightarrow> board \<Rightarrow> 'j manager" where
  "JobManager config b = \<lparr>cfg = config, jobs = [], board = b\<rparr>"

text \<open>
  \<open>JobManager.register_job\<close>; \<open>now\<close> is the value \<open>dt.now()\<close> returns in the
  constructor of the job.
\<close>

definition register_job ::
  "datetime \<Rightarrow> 'j job_class \<Rightarrow> 'j manager \<times> logger \<Rightarrow> 'j manager \<times> logger" where
  "register_job now job mL =
     (let m = fst mL;
          L1 = log_info (''registering job '' @ name job) (snd mL);
          L2 = (if map_of (jobs m) (name job) \<noteq> None
                then log_warning (''overwriting job (during register) with name: '' @ name job) L1
                else L1)
      in (m\<lparr>jobs := dict_set (name job) (job, init job now) (jobs m)\<rparr>, L2))"

text \<open>
  \<open>JobManager.handle_job\<close>; \<open>now\<close> is the value \<open>dt.now()\<close> returns in \<open>run\<close>.
  The first component of the result is the exception that leaves \<open>handle_job\<close>, if any.
  The board and the job instance are mutable objects: what the body did to them before
  raising stays.
\<close>

definition handle_job ::
  "datetime \<Rightarrow> string \<Rightarrow> kwargs \<Rightarrow> ('a job_scheme) manager \<times> logger
     \<Rightarrow> exn option \<times> ('a job_scheme) manager \<times> logger" where
  "handle_job now job_name job_kwargs mL =
     (let m = fst mL; L = snd mL
      in case map_of (jobs m) job_name of
           None \<Rightarrow>
             (None, m, log_error (''could not find job with name: '' @ job_name) None L)
         | Some (cls, j) \<Rightarrow>
             (case run cls now (cfg m) job_kwargs \<lparr>self = j, brd = board m, lg = L\<rparr> of
                (r, s) \<Rightarrow>
                  (let m' = m\<lparr>jobs := dict_set job_name (cls, self s) (jobs m),
                               board := brd s\<rparr>
                   in case r of
                        None \<Rightarrow> (None, m', lg s)
                      | Some e \<Rightarrow>
                          (if isinstance_Exception e then
                             (None, m',
                              log_error ''EXC'' (Some e)
                                (log_error (''failed running job: '' @ job_name) None (lg s)))
                           else (Some e, m', lg s)))))"

text \<open>
  \<open>JobManager.get_recurring_job\<close>.  Every \<open>is_due()\<close> of the loop reads the clock
  for itself: \<open>clock i\<close> is the value \<open>dt.now()\<close> returns in the \<open>is_due()\<close> call
  on the job at position \<open>i\<close> of the dict (\<open>first_due\<close> scans from position \<open>k\<close>).
  A job whose interval is \<open>None\<close> returns before reading the clock, and \<open>is_due\<close>
  does not use the reading for it.  Falling out of the loop returns \<open>None\<close>.
\<close>

fun first_due ::
  "(nat \<Rightarrow> datetime) \<Rightarrow> nat \<Rightarrow> (string \<times> ('a job_scheme) job_instance) list \<Rightarrow> string option" where
  "first_due clock k [] = None"
| "first_due clock k ((n, (cls, j)) # rest) =
     (if is_due (clock k) j then Some n else first_due clock (Suc k) rest)"

definition get_recurring_job ::
  "(nat \<Rightarrow> datetime) \<Rightarrow> ('a job_scheme) manager \<Rightarrow> string option" where
  "get_recurring_job clock m = first_due clock 0 (jobs m)"

section \<open>Example inputs\<close>

text \<open>Concrete collaborators, arguments and states on which the results below are exercised.\<close>

definition cfg_empty :: config where
  "cfg_empty = Map.empty"

definition kwargs_empty :: kwargs where
  "kwargs_empty = Map.empty"

definition kwargs_backup :: kwargs where
  "kwargs_backup = [''tar_path'' \<mapsto> ''/tmp/x.tar'', ''mode'' \<mapsto> ''backup'']"

definition kwargs_restore :: kwargs where
  "kwargs_restore = [''tar_path'' \<mapsto> ''/tmp/x.tar'', ''mode'' \<mapsto> ''restore'']"

definition kwargs_delete :: kwargs where
  "kwargs_delete = [''tar_path'' \<mapsto> ''/tmp/x.tar'', ''mode'' \<mapsto> ''delete'']"

definition board_empty :: board where
  "board_empty = \<lparr>topics = Map.empty, messages = []\<rparr>"

definition board_leftover :: board where
  "board_leftover =
     \<lparr>topics = [''backup_restore'' \<mapsto> [''error'' \<mapsto> PyStr ''disk full'']], messages = []\<rparr>"

definition export_ex :: "string \<Rightarrow> generator" where
  "export_ex p = [(''running'', (''a'', ''files''), 10),
                  (''running'', (''b'', ''files''), 60),
                  (''done'', ('''', ''''), 100)]"

definition import_ex :: "string \<Rightarrow> generator" where
  "import_ex p = [(''running'', (''a'', ''unpack''), 50)]"

definition ctrl_ex :: ctrl where
  "ctrl_ex = \<lparr>full_export = export_ex, full_import = import_ex\<rparr>"

definition st_idle :: "board \<Rightarrow> BackupRestoreJob st" where
  "st_idle b = \<lparr>self = BackupRestoreJob_init 0, brd = b, lg = []\<rparr>"

definition st_running :: "generator \<Rightarrow> BackupRestoreJob st" where
  "st_running it =
     \<lparr>self = \<lparr>interval = Some 1, last_run = 0, iterator = Some it\<rparr>, brd = board_empty, lg = []\<rparr>"

text \<open>The record published for one progress record, and the one published at the start.\<close>

definition progress_dict :: "progress \<Rightarrow> record_dict" where
  "progress_dict r =
     (case r of (state, (who, what), percent) \<Rightarrow>
        [''state'' \<mapsto> PyStr state, ''who'' \<mapsto> PyStr who,
         ''what'' \<mapsto> PyStr what, ''percent'' \<mapsto> PyInt percent])"

definition starting_dict :: "string \<Rightarrow> string \<Rightarrow> record_dict" where
  "starting_dict tar_path mode =
     [''state'' \<mapsto> PyStr ''starting'', ''percent'' \<mapsto> PyStr ''0'', ''who'' \<mapsto> PyStr ''all'',
      ''tar_path'' \<mapsto> PyStr tar_path,
      ''what'' \<mapsto> PyStr (if mode = ''backup'' then ''export'' else ''import''),
      ''mode'' \<mapsto> PyStr mode]"

text \<open>A clock that returns the same reading at every call.\<close>

definition clock_at :: "datetime \<Rightarrow> nat \<Rightarrow> datetime" where
  "clock_at t i = t"

text \<open>
  Three behaviours of the file system: the file is missing, the read is interrupted from
  the keyboard, the read succeeds.
\<close>

definition read_missing :: "string \<Rightarrow> exn + string" where
  "read_missing p = Inl FileNotFoundError"

definition read_interrupted :: "string \<Rightarrow> exn + string" where
  "read_interrupted p = Inl KeyboardInterrupt"

definition read_ok :: "string \<Rightarrow> exn + string" where
  "read_ok p = Inr (''48312'' @ [CHR 0x0A])"

text \<open>A manager with one registered job, created when the clock reads 0.\<close>

definition manager_with :: "job job_class \<Rightarrow> job manager" where
  "manager_with c = fst (register_job 0 c (JobManager cfg_empty board_empty, []))"

definition st_job :: "job \<Rightarrow> job st" where
  "st_job j = \<lparr>self = j, brd = board_empty, lg = []\<rparr>"

text \<open>A sequence of \<open>register_job\<close> calls, each with the clock reading of its constructor.\<close>

fun register_all ::
  "(datetime \<times> 'j job_class) list \<Rightarrow> 'j manager \<times> logger \<Rightarrow> 'j manager \<times> logger" where
  "register_all [] mL = mL"
| "register_all ((now, job) # rs) mL = register_all rs (register_job now job mL)"

text \<open>
  Two registrations under one name: the hardware status job over a file system where the
  file is missing, then, one second later, over one where the read succeeds.
\<close>

definition registered_twice :: "job manager \<times> logger" where
  "registered_twice =
     register_all [(0, HardwareStatusUpdateJob read_missing),
                   (1000000, HardwareStatusUpdateJob read_ok)]
       (JobManager cfg_empty board_empty, [])"

section \<open>Properties\<close>

subsection \<open>Auxiliary facts\<close>

lemma seconds_timedelta:
  "0 \<le> t \<Longrightarrow> t < 86400 \<Longrightarrow> 0 \<le> us \<Longrightarrow> us < 1000000 \<Longrightarrow> seconds (timedelta d t us) = t"
proof -
  assume a: "0 \<le> t" "t < 86400" "0 \<le> us" "us < 1000000"
  have "timedelta d t us = (d * 86400 + t) * 1000000 + us"
    by (simp add: timedelta_def algebra_simps)
  then have "timedelta d t us div 1000000 = d * 86400 + t"
    using a by simp
  then show ?thesis using a by (simp add: seconds_def)
qed

lemma days_timedelta:
  "0 \<le> t \<Longrightarrow> t < 86400 \<Longrightarrow> 0 \<le> us \<Longrightarrow> us < 1000000 \<Longrightarrow> days (timedelta d t us) = d"
proof -
  assume a: "0 \<le> t" "t < 86400" "0 \<le> us" "us < 1000000"
  have "timedelta d t us = d * 86400000000 + (t * 1000000 + us)"
    by (simp add: timedelta_def)
  moreover have "0 \<le> t * 1000000 + us" "t * 1000000 + us < 86400000000" using a by auto
  ultimately show ?thesis unfolding days_def
    by (simp add: div_pos_pos_trivial)
qed

lemma microseconds_timedelta:
  "0 \<le> us \<Longrightarrow> us < 1000000 \<Longrightarrow> microseconds (timedelta d t us) = us"
proof -
  assume a: "0 \<le> us" "us < 1000000"
  have "timedelta d t us = (d * 86400 + t) * 1000000 + us"
    by (simp add: timedelta_def algebra_simps)
  then have "microseconds (timedelta d t us) = us mod 1000000"
    unfolding microseconds_def by (metis mod_mult_self3)
  then show ?thesis using a by simp
qed

lemma seconds_range: "0 \<le> seconds d \<and> seconds d < 86400"
  by (simp add: seconds_def)

lemma run_active_record:
  assumes "iterator (self s) = Some (r # rest)"
  shows "BackupRestoreJob_run c cf kw s =
           (None, s\<lparr>self := (self s)\<lparr>iterator := Some rest\<rparr>,
                     brd := Board_set ''backup_restore'' (progress_dict r) (brd s)\<rparr>)"
  using assms by (simp add: BackupRestoreJob_run_def progress_dict_def split: prod.splits)

lemma run_active_exhausted:
  assumes "iterator (self s) = Some []"
  shows "BackupRestoreJob_run c cf kw s =
           (None, s\<lparr>self := (self s)\<lparr>iterator := None, interval := None\<rparr>\<rparr>)"
  using assms by (simp add: BackupRestoreJob_run_def)

lemma run_idle_start:
  assumes "iterator (self s) = None" "kw ''tar_path'' = Some p" "kw ''mode'' = Some m"
    "m = ''backup'' \<or> m = ''restore''"
  shows "BackupRestoreJob_run c cf kw s =
           (None, s\<lparr>brd := Board_update ''backup_restore'' (starting_dict p m) (brd s),
                     self := (self s)\<lparr>iterator := Some (if m = ''backup'' then full_export c p
                                                          else full_import c p),
                                       interval := Some 1\<rparr>\<rparr>)"
  using assms by (auto simp add: BackupRestoreJob_run_def starting_dict_def Let_def)

lemma run_idle_invalid:
  assumes "iterator (self s) = None"
    "kw ''tar_path'' = None \<or> kw ''mode'' = None
       \<or> (kw ''mode'' \<noteq> Some ''backup'' \<and> kw ''mode'' \<noteq> Some ''restore'')"
  shows "\<exists>msg. BackupRestoreJob_run c cf kw s =
           (None, s\<lparr>lg := log_error msg None (lg s), brd := Board_messages_put msg (brd s)\<rparr>)"
  using assms by (auto simp add: BackupRestoreJob_run_def Let_def)

lemma board_field_set:
  "board_field (Board_set t r b) t k = r k"
  by (simp add: board_field_def Board_set_def)

lemma board_field_update:
  "board_field (Board_update t r b) t k = (case r k of Some v \<Rightarrow> Some v | None \<Rightarrow> board_field b t k)"
  by (simp add: board_field_def Board_update_def map_add_def split: option.splits)

lemma messages_Board_update: "messages (Board_update t r b) = messages b"
  by (simp add: Board_update_def)

lemma map_of_dict_set:
  "map_of (dict_set k v xs) k' = (if k' = k then Some v else map_of xs k')"
  by (induction xs) auto

lemma keys_dict_set:
  "map fst (dict_set k v xs) = (if k \<in> set (map fst xs) then map fst xs else map fst xs @ [k])"
  by (induction xs) (auto simp add: rev_image_eqI)

lemma distinct_dict_set:
  "distinct (map fst xs) \<Longrightarrow> distinct (map fst (dict_set k v xs))"
  by (simp add: keys_dict_set)

lemma first_due_None:
  "(first_due clock k xs = None) =
     (\<forall>i<length xs. \<not> is_due (clock (k + i)) (snd (snd (xs ! i))))"
proof (induction xs arbitrary: k)
  case Nil
  then show ?case by simp
next
  case (Cons x xs)
  obtain n cls j where x: "x = (n, cls, j)" by (cases x) auto
  show ?case
  proof (cases "is_due (clock k) j")
    case True
    then show ?thesis using x by auto
  next
    case False
    have "(\<forall>i<length (x # xs). \<not> is_due (clock (k + i)) (snd (snd ((x # xs) ! i)))) =
          (\<forall>i<length xs. \<not> is_due (clock (Suc k + i)) (snd (snd (xs ! i))))"
      using False x by (auto simp add: nth_Cons split: nat.splits)
    then show ?thesis using False x Cons.IH [of "Suc k"] by simp
  qed
qed

lemma first_due_Some:
  "(first_due clock k xs = Some n) =
     (\<exists>i<length xs. fst (xs ! i) = n \<and> is_due (clock (k + i)) (snd (snd (xs ! i)))
        \<and> (\<forall>l<i. \<not> is_due (clock (k + l)) (snd (snd (xs ! l)))))"
proof (induction xs arbitrary: k)
  case Nil
  then show ?case by simp
next
  case (Cons x xs)
  obtain n' cls j where x: "x = (n', cls, j)" by (cases x) auto
  let ?P = "\<lambda>ys k i. fst (ys ! i) = n \<and> is_due (clock (k + i)) (snd (snd (ys ! i)))
        \<and> (\<forall>l<i. \<not> is_due (clock (k + l)) (snd (snd (ys ! l))))"
  show ?case
  proof (cases "is_due (clock k) j")
    case True
    have "(\<exists>i<length (x # xs). ?P (x # xs) k i) = (n' = n)"
    proof
      assume "\<exists>i<length (x # xs). ?P (x # xs) k i"
      then obtain i where i: "i < length (x # xs)" "?P (x # xs) k i" by blast
      have "i = 0"
      proof (rule ccontr)
        assume "i \<noteq> 0"
        then have "0 < i" by simp
        with i(2) have "\<not> is_due (clock (k + 0)) (snd (snd ((x # xs) ! 0)))" by blast
        with True x show False by simp
      qed
      with i x show "n' = n" by simp
    next
      assume "n' = n"
      with True x have "?P (x # xs) k 0" by simp
      then show "\<exists>i<length (x # xs). ?P (x # xs) k i" by auto
    qed
    then show ?thesis using True x by simp
  next
    case False
    have "(\<exists>i<length (x # xs). ?P (x # xs) k i) = (\<exists>i<length xs. ?P xs (Suc k) i)"
    proof
      assume "\<exists>i<length (x # xs). ?P (x # xs) k i"
      then obtain i where i: "i < length (x # xs)" "?P (x # xs) k i" by blast
      have "i \<noteq> 0"
      proof
        assume "i = 0"
        with i(2) x have "is_due (clock k) j" by simp
        with False show False by simp
      qed
      then obtain i' where i': "i = Suc i'" by (cases i) auto
      have "\<forall>l<i'. \<not> is_due (clock (Suc k + l)) (snd (snd (xs ! l)))"
      proof (intro allI impI)
        fix l assume "l < i'"
        then have "Suc l < i" using i' by simp
        with i(2) have "\<not> is_due (clock (k + Suc l)) (snd (snd ((x # xs) ! Suc l)))" by blast
        then show "\<not> is_due (clock (Suc k + l)) (snd (snd (xs ! l)))" by simp
      qed
      with i i' have "i' < length xs \<and> ?P xs (Suc k) i'" by simp
      then show "\<exists>i<length xs. ?P xs (Suc k) i" by blast
    next
      assume "\<exists>i<length xs. ?P xs (Suc k) i"
      then obtain i where i: "i < length xs" "?P xs (Suc k) i" by blast
      have "\<forall>l<Suc i. \<not> is_due (clock (k + l)) (snd (snd ((x # xs) ! l)))"
      proof (intro allI impI)
        fix l assume l: "l < Suc i"
        show "\<not> is_due (clock (k + l)) (snd (snd ((x # xs) ! l)))"
        proof (cases l)
          case 0
          then show ?thesis using False x by simp
        next
          case (Suc l')
          then have "l' < i" using l by simp
          with i(2) have "\<not> is_due (clock (Suc k + l')) (snd (snd (xs ! l')))" by blast
          then show ?thesis using Suc by simp
        qed
      qed
      with i have "Suc i < length (x # xs) \<and> ?P (x # xs) k (Suc i)" by simp
      then show "\<exists>i<length (x # xs). ?P (x # xs) k i" by blast
    qed
    then show ?thesis using False x Cons.IH [of "Suc k"] by simp
  qed
qed

lemma first_due_cong:
  "(\<forall>i<length xs. clock (k + i) = clock' (k + i)) \<Longrightarrow> first_due clock k xs = first_due clock' k xs"
proof (induction xs arbitrary: k)
  case Nil
  then show ?case by simp
next
  case (Cons x xs)
  obtain n cls j where x: "x = (n, cls, j)" by (cases x) auto
  from Cons.prems have "clock (k + 0) = clock' (k + 0)" by (metis length_greater_0_conv list.distinct(1))
  moreover have "\<forall>i<length xs. clock (Suc k + i) = clock' (Suc k + i)"
  proof (intro allI impI)
    fix i assume "i < length xs"
    then have "Suc i < length (x # xs)" by simp
    with Cons.prems have "clock (k + Suc i) = clock' (k + Suc i)" by blast
    then show "clock (Suc k + i) = clock' (Suc k + i)" by simp
  qed
  ultimately show ?case using x Cons.IH [of "Suc k"] by simp
qed

lemma is_due_elapsed:
  assumes "last_run j \<le> now'" "is_due now' j"
  shows "\<exists>i. interval j = Some i \<and> i * 1000000 < now' - last_run j"
proof -
  from assms(2) obtain i where i: "interval j = Some i" "i < seconds (now' - last_run j)"
    by (auto simp add: is_due_def split: option.splits)
  let ?e = "now' - last_run j"
  have e: "0 \<le> ?e" using assms(1) by simp
  then have "0 \<le> ?e div 1000000" by simp
  then have "seconds ?e \<le> ?e div 1000000"
    unfolding seconds_def by (simp add: zmod_le_nonneg_dividend)
  with i have "i + 1 \<le> ?e div 1000000" by simp
  then have "(i + 1) * 1000000 \<le> ?e div 1000000 * 1000000" by simp
  also have "\<dots> \<le> ?e" by simp
  finally have "i * 1000000 < ?e" by simp
  with i show ?thesis by blast
qed

lemma is_due_zero_elapsed:
  assumes "\<forall>i. interval j = Some i \<longrightarrow> 0 \<le> i"
  shows "\<not> is_due (last_run j) j"
  using assms by (auto simp add: is_due_def seconds_def split: option.splits)

lemma run_body:
  "run cls now cf kw s =
     (case body cls cf kw (s\<lparr>lg := log_debug (''starting worker job: '' @ name cls) (lg s),
                              self := (self s)\<lparr>last_run := now\<rparr>\<rparr>) of
        (Some e, s3) \<Rightarrow> (Some e, s3)
      | (None, s3) \<Rightarrow>
          (None, s3\<lparr>lg := log_debug (''finished worker job: '' @ name cls) (lg s3)\<rparr>))"
  by (simp add: run_def Let_def)

lemma run_components:
  "fst (run cls now cf kw s) =
     fst (body cls cf kw (s\<lparr>lg := log_debug (''starting worker job: '' @ name cls) (lg s),
                              self := (self s)\<lparr>last_run := now\<rparr>\<rparr>))
   \<and> self (snd (run cls now cf kw s)) =
     self (snd (body cls cf kw (s\<lparr>lg := log_debug (''starting worker job: '' @ name cls) (lg s),
                              self := (self s)\<lparr>last_run := now\<rparr>\<rparr>)))
   \<and> brd (snd (run cls now cf kw s)) =
     brd (snd (body cls cf kw (s\<lparr>lg := log_debug (''starting worker job: '' @ name cls) (lg s),
                              self := (self s)\<lparr>last_run := now\<rparr>\<rparr>)))"
  unfolding run_body by (simp split: prod.splits option.splits)

lemma bodies_keep_last_run:
  "last_run (self (snd (BaseJob_run cf kw s))) = last_run (self s)"
  "last_run (self (snd (LEDJob_run cf kw s1))) = last_run (self s1)"
  "last_run (self (snd (HardwareStatusUpdateJob_run rd cf kw s1))) = last_run (self s1)"
  "last_run (self (snd (BackupRestoreJob_run c cf kw s2))) = last_run (self s2)"
  by (auto simp add: BaseJob_run_def LEDJob_run_def HardwareStatusUpdateJob_run_def
        BackupRestoreJob_run_def Let_def
      split: sum.splits option.splits list.splits prod.splits)

lemma handle_job_unregistered:
  "map_of (jobs m) n = None \<Longrightarrow>
     handle_job now n kw (m, L) =
       (None, m, L @ [Entry ERROR (''could not find job with name: '' @ n) None])"
  by (simp add: handle_job_def log_error_def)

lemma handle_job_registered:
  assumes "map_of (jobs m) n = Some (cls, j)"
  shows "handle_job now n kw (m, L) =
     (let r = run cls now (cfg m) kw \<lparr>self = j, brd = board m, lg = L\<rparr>;
          m' = m\<lparr>jobs := dict_set n (cls, self (snd r)) (jobs m), board := brd (snd r)\<rparr>
      in case fst r of
           None \<Rightarrow> (None, m', lg (snd r))
         | Some e \<Rightarrow>
             if isinstance_Exception e
             then (None, m', lg (snd r) @ [Entry ERROR (''failed running job: '' @ n) None,
                                           Entry ERROR ''EXC'' (Some e)])
             else (Some e, m', lg (snd r)))"
  using assms by (simp add: handle_job_def log_error_def Let_def split: prod.splits option.splits)

lemma jobs_manager_with:
  "jobs (manager_with c) = [(name c, c, init c 0)]"
  by (simp add: manager_with_def register_job_def JobManager_def Let_def)

lemma jobs_register_job:
  "jobs (fst (register_job t c mL)) = dict_set (name c) (c, init c t) (jobs (fst mL))"
  by (simp add: register_job_def Let_def)

lemma register_job_lookup:
  "map_of (jobs (fst (register_job t c mL))) n =
     (if n = name c then Some (c, init c t) else map_of (jobs (fst mL)) n)"
  by (simp add: jobs_register_job map_of_dict_set)

lemma register_job_existing:
  assumes "map_of (jobs (fst mL)) (name c) \<noteq> None"
  shows "snd (register_job t c mL) =
           snd mL @ [Entry INFO (''registering job '' @ name c) None,
                     Entry WARNING (''overwriting job (during register) with name: '' @ name c) None]
         \<and> map fst (jobs (fst (register_job t c mL))) = map fst (jobs (fst mL))"
proof -
  from assms have "name c \<in> fst ` set (jobs (fst mL))"
    by (simp add: map_of_eq_None_iff)
  then show ?thesis using assms
    by (simp add: register_job_def Let_def log_info_def log_warning_def keys_dict_set)
qed

lemma register_all_append:
  "register_all (rs1 @ rs2) mL = register_all rs2 (register_all rs1 mL)"
proof (induction rs1 arbitrary: mL)
  case Nil
  then show ?case by simp
next
  case (Cons r rs1)
  obtain t c where "r = (t, c)" by (cases r) auto
  then show ?case using Cons.IH by simp
qed

lemma register_all_distinct:
  "distinct (map fst (jobs (fst mL))) \<Longrightarrow> distinct (map fst (jobs (fst (register_all rs mL))))"
proof (induction rs arbitrary: mL)
  case Nil
  then show ?case by simp
next
  case (Cons r rs)
  obtain t c where r: "r = (t, c)" by (cases r) auto
  have "distinct (map fst (jobs (fst (register_job t c mL))))"
    using Cons.prems by (simp add: jobs_register_job distinct_dict_set)
  then show ?case using Cons.IH r by simp
qed

lemma register_all_other_names:
  "\<forall>r\<in>set rs. name (snd r) \<noteq> n \<Longrightarrow>
     map_of (jobs (fst (register_all rs mL))) n = map_of (jobs (fst mL)) n"
proof (induction rs arbitrary: mL)
  case Nil
  then show ?case by simp
next
  case (Cons r rs)
  obtain t c where r: "r = (t, c)" by (cases r) auto
  with Cons.prems have "name c \<noteq> n" by auto
  then have "map_of (jobs (fst (register_job t c mL))) n = map_of (jobs (fst mL)) n"
    by (auto simp add: register_job_lookup)
  moreover from Cons.prems have "\<forall>r\<in>set rs. name (snd r) \<noteq> n" by simp
  ultimately show ?case using Cons.IH r by simp
qed

lemma register_all_last_wins:
  assumes "\<forall>r\<in>set rs2. name (snd r) \<noteq> name c"
  shows "map_of (jobs (fst (register_all (rs1 @ (t, c) # rs2) mL))) (name c) = Some (c, init c t)"
proof -
  have "register_all (rs1 @ (t, c) # rs2) mL =
          register_all rs2 (register_job t c (register_all rs1 mL))"
    by (simp add: register_all_append)
  then show ?thesis
    using register_all_other_names [OF assms] by (simp add: register_job_lookup)
qed

lemma handle_job_reaches:
  assumes "map_of (jobs m) n = Some (cls, j)"
  shows "map_of (jobs (fst (snd (handle_job now n kw (m, L))))) n =
           Some (cls, self (snd (run cls now (cfg m) kw \<lparr>self = j, brd = board m, lg = L\<rparr>)))
         \<and> board (fst (snd (handle_job now n kw (m, L)))) =
           brd (snd (run cls now (cfg m) kw \<lparr>self = j, brd = board m, lg = L\<rparr>))"
  using assms
  by (simp add: handle_job_registered Let_def map_of_dict_set split: option.splits)

subsection \<open>C1: the due check against the elapsed time\<close>

text \<open>
  Claim C1 asks that, with a non-null interval, \<open>is_due\<close> be true iff the elapsed time
  since \<open>last_run\<close> strictly exceeds the interval.  The code reads \<open>.seconds\<close> of the
  timedelta, not its total: for a job with interval 7200 whose last run is one day and
  100 seconds ago, the elapsed time exceeds the interval (\<open>is_due_spec\<close>) and
  \<open>is_due\<close> answers false; the same happens 1.5 seconds after the last run with
  interval 1.
\<close>

theorem is_due_drops_days:
  "is_due (timedelta 1 100 0) (BaseJob_init (Some 7200) 0) = False
   \<and> is_due_spec (timedelta 1 100 0) (BaseJob_init (Some 7200) 0) = True
   \<and> is_due (timedelta 0 1 500000) (BaseJob_init (Some 1) 0) = False
   \<and> is_due_spec (timedelta 0 1 500000) (BaseJob_init (Some 1) 0) = True"
  by (simp add: is_due_def is_due_spec_def BaseJob_init_def timedelta_def seconds_def)

subsection \<open>C2: one progress record per invocation\<close>

text \<open>
  Claim C2.  When \<open>BackupRestoreJob._run\<close> is invoked with an iterator present, exactly
  one record is pulled.  If the sequence yields \<open>(state, (who, what), percent)\<close>, the
  record with exactly these four fields replaces the topic \<open>backup_restore\<close> on the
  board (\<open>set\<close>), the iterator stays in place, advanced by that one record, and the
  interval is unchanged.  If the sequence is exhausted, the iterator is cleared, the
  interval becomes \<open>None\<close> and the board is left as it was.  Nothing is raised.
\<close>

theorem BackupRestoreJob_run_active:
  "(iterator (self s) = Some ((state, (who, what), percent) # rest) \<longrightarrow>
      BackupRestoreJob_run c cf kw s =
        (None, s\<lparr>self := (self s)\<lparr>iterator := Some rest\<rparr>,
                  brd := Board_set ''backup_restore''
                           [''state'' \<mapsto> PyStr state, ''who'' \<mapsto> PyStr who,
                            ''what'' \<mapsto> PyStr what, ''percent'' \<mapsto> PyInt percent] (brd s)\<rparr>)
      \<and> interval (self (snd (BackupRestoreJob_run c cf kw s))) = interval (self s)
      \<and> topics (brd (snd (BackupRestoreJob_run c cf kw s))) ''backup_restore'' =
          Some [''state'' \<mapsto> PyStr state, ''who'' \<mapsto> PyStr who,
                ''what'' \<mapsto> PyStr what, ''percent'' \<mapsto> PyInt percent])
   \<and> (iterator (self s) = Some [] \<longrightarrow>
        BackupRestoreJob_run c cf kw s =
          (None, s\<lparr>self := (self s)\<lparr>iterator := None, interval := None\<rparr>\<rparr>)
        \<and> brd (snd (BackupRestoreJob_run c cf kw s)) = brd s)"
  by (simp add: run_active_record run_active_exhausted progress_dict_def Board_set_def)

text \<open>
  C2 exercised on the three-record export sequence and on an exhausted sequence.
\<close>

theorem BackupRestoreJob_run_active_witness:
  "BackupRestoreJob_run ctrl_ex cfg_empty kwargs_empty (st_running (export_ex ''/tmp/x.tar'')) =
     (None, (st_running (export_ex ''/tmp/x.tar''))
        \<lparr>self := (self (st_running (export_ex ''/tmp/x.tar'')))
                   \<lparr>iterator := Some [(''running'', (''b'', ''files''), 60), (''done'', ('''', ''''), 100)]\<rparr>,
         brd := Board_set ''backup_restore''
                  [''state'' \<mapsto> PyStr ''running'', ''who'' \<mapsto> PyStr ''a'',
                   ''what'' \<mapsto> PyStr ''files'', ''percent'' \<mapsto> PyInt 10] board_empty\<rparr>)
   \<and> BackupRestoreJob_run ctrl_ex cfg_empty kwargs_backup (st_running []) =
       (None, (st_running [])\<lparr>self := (self (st_running []))\<lparr>iterator := None, interval := None\<rparr>\<rparr>)"
  using BackupRestoreJob_run_active
          [of "st_running (export_ex ''/tmp/x.tar'')" "''running''" "''a''" "''files''" 10
              "[(''running'', (''b'', ''files''), 60), (''done'', ('''', ''''), 100)]"
              ctrl_ex cfg_empty kwargs_empty]
        BackupRestoreJob_run_active [of "st_running []" _ _ _ _ _ ctrl_ex cfg_empty kwargs_backup]
  by (simp add: st_running_def export_ex_def)

subsection \<open>C3: starting an operation\<close>

text \<open>
  Claim C3, amended.  Invoked while idle with a \<open>tar_path\<close> and a mode \<open>backup\<close>
  or \<open>restore\<close>, the job merges into topic \<open>backup_restore\<close> the record with state
  \<open>starting\<close>, who \<open>all\<close>, the given tar_path, what \<open>export\<close> for backup and
  \<open>import\<close> for restore, the given mode, and percent the string \<open>"0"\<close> (not the
  number 0); it creates the export iterator for \<open>backup\<close> and the import iterator for
  \<open>restore\<close>, sets the interval to 1 and returns with the whole sequence still to be
  pulled.  Nothing is raised, logged or put on the message queue.
\<close>

theorem BackupRestoreJob_run_start:
  "iterator (self s) = None \<and> kw ''tar_path'' = Some p \<and> kw ''mode'' = Some m
     \<and> (m = ''backup'' \<or> m = ''restore'') \<longrightarrow>
   BackupRestoreJob_run c cf kw s =
     (None, s\<lparr>brd := Board_update ''backup_restore''
                        [''state'' \<mapsto> PyStr ''starting'',
                         ''percent'' \<mapsto> PyStr ''0'',
                         ''who'' \<mapsto> PyStr ''all'',
                         ''tar_path'' \<mapsto> PyStr p,
                         ''what'' \<mapsto> PyStr (if m = ''backup'' then ''export'' else ''import''),
                         ''mode'' \<mapsto> PyStr m] (brd s),
               self := (self s)\<lparr>iterator := Some (if m = ''backup'' then full_export c p
                                                    else full_import c p),
                                 interval := Some 1\<rparr>\<rparr>)
   \<and> board_field (brd (snd (BackupRestoreJob_run c cf kw s))) ''backup_restore'' ''state''
         = Some (PyStr ''starting'')
   \<and> board_field (brd (snd (BackupRestoreJob_run c cf kw s))) ''backup_restore'' ''percent''
         = Some (PyStr ''0'')
   \<and> board_field (brd (snd (BackupRestoreJob_run c cf kw s))) ''backup_restore'' ''who''
         = Some (PyStr ''all'')
   \<and> board_field (brd (snd (BackupRestoreJob_run c cf kw s))) ''backup_restore'' ''tar_path''
         = Some (PyStr p)
   \<and> board_field (brd (snd (BackupRestoreJob_run c cf kw s))) ''backup_restore'' ''what''
         = Some (PyStr (if m = ''backup'' then ''export'' else ''import''))
   \<and> board_field (brd (snd (BackupRestoreJob_run c cf kw s))) ''backup_restore'' ''mode''
         = Some (PyStr m)
   \<and> messages (brd (snd (BackupRestoreJob_run c cf kw s))) = messages (brd s)
   \<and> lg (snd (BackupRestoreJob_run c cf kw s)) = lg s"
proof (intro impI)
  assume a: "iterator (self s) = None \<and> kw ''tar_path'' = Some p \<and> kw ''mode'' = Some m
     \<and> (m = ''backup'' \<or> m = ''restore'')"
  then have "BackupRestoreJob_run c cf kw s =
           (None, s\<lparr>brd := Board_update ''backup_restore'' (starting_dict p m) (brd s),
                     self := (self s)\<lparr>iterator := Some (if m = ''backup'' then full_export c p
                                                          else full_import c p),
                                       interval := Some 1\<rparr>\<rparr>)"
    using run_idle_start [of s kw p m c cf] by blast
  then show "BackupRestoreJob_run c cf kw s =
     (None, s\<lparr>brd := Board_update ''backup_restore''
                        [''state'' \<mapsto> PyStr ''starting'',
                         ''percent'' \<mapsto> PyStr ''0'',
                         ''who'' \<mapsto> PyStr ''all'',
                         ''tar_path'' \<mapsto> PyStr p,
                         ''what'' \<mapsto> PyStr (if m = ''backup'' then ''export'' else ''import''),
                         ''mode'' \<mapsto> PyStr m] (brd s),
               self := (self s)\<lparr>iterator := Some (if m = ''backup'' then full_export c p
                                                    else full_import c p),
                                 interval := Some 1\<rparr>\<rparr>)
   \<and> board_field (brd (snd (BackupRestoreJob_run c cf kw s))) ''backup_restore'' ''state''
         = Some (PyStr ''starting'')
   \<and> board_field (brd (snd (BackupRestoreJob_run c cf kw s))) ''backup_restore'' ''percent''
         = Some (PyStr ''0'')
   \<and> board_field (brd (snd (BackupRestoreJob_run c cf kw s))) ''backup_restore'' ''who''
         = Some (PyStr ''all'')
   \<and> board_field (brd (snd (BackupRestoreJob_run c cf kw s))) ''backup_restore'' ''tar_path''
         = Some (PyStr p)
   \<and> board_field (brd (snd (BackupRestoreJob_run c cf kw s))) ''backup_restore'' ''what''
         = Some (PyStr (if m = ''backup'' then ''export'' else ''import''))
   \<and> board_field (brd (snd (BackupRestoreJob_run c cf kw s))) ''backup_restore'' ''mode''
         = Some (PyStr m)
   \<and> messages (brd (snd (BackupRestoreJob_run c cf kw s))) = messages (brd s)
   \<and> lg (snd (BackupRestoreJob_run c cf kw s)) = lg s"
    by (simp add: starting_dict_def board_field_update messages_Board_update)
qed

text \<open>C3 exercised on a backup and on a restore request for \<open>/tmp/x.tar\<close>.\<close>

theorem BackupRestoreJob_run_start_witness:
  "iterator (self (st_idle board_empty)) = None
   \<and> kwargs_backup ''tar_path'' = Some ''/tmp/x.tar'' \<and> kwargs_backup ''mode'' = Some ''backup''
   \<and> interval (self (snd (BackupRestoreJob_run ctrl_ex cfg_empty kwargs_backup (st_idle board_empty))))
        = Some 1
   \<and> iterator (self (snd (BackupRestoreJob_run ctrl_ex cfg_empty kwargs_backup (st_idle board_empty))))
        = Some (export_ex ''/tmp/x.tar'')
   \<and> iterator (self (snd (BackupRestoreJob_run ctrl_ex cfg_empty kwargs_restore (st_idle board_empty))))
        = Some (import_ex ''/tmp/x.tar'')
   \<and> board_field (brd (snd (BackupRestoreJob_run ctrl_ex cfg_empty kwargs_backup (st_idle board_empty))))
        ''backup_restore'' ''what'' = Some (PyStr ''export'')
   \<and> board_field (brd (snd (BackupRestoreJob_run ctrl_ex cfg_empty kwargs_restore (st_idle board_empty))))
        ''backup_restore'' ''what'' = Some (PyStr ''import'')"
proof -
  have b: "iterator (self (st_idle board_empty)) = None \<and> kwargs_backup ''tar_path'' = Some ''/tmp/x.tar''
             \<and> kwargs_backup ''mode'' = Some ''backup'' \<and> (''backup'' = ''backup'' \<or> ''backup'' = ''restore'')"
    by (simp add: st_idle_def BackupRestoreJob_init_def kwargs_backup_def)
  have r: "iterator (self (st_idle board_empty)) = None \<and> kwargs_restore ''tar_path'' = Some ''/tmp/x.tar''
             \<and> kwargs_restore ''mode'' = Some ''restore'' \<and> (''restore'' = ''backup'' \<or> ''restore'' = ''restore'')"
    by (simp add: st_idle_def BackupRestoreJob_init_def kwargs_restore_def)
  show ?thesis
    using b BackupRestoreJob_run_start [THEN mp, OF b, of ctrl_ex cfg_empty]
          BackupRestoreJob_run_start [THEN mp, OF r, of ctrl_ex cfg_empty]
    by (simp add: ctrl_ex_def board_field_update)
qed

text \<open>
  C3 as stated fails: after the start call of a backup of \<open>/tmp/x.tar\<close> the percent
  field of the topic is the string \<open>"0"\<close>, which is not the number 0.
\<close>

theorem BackupRestoreJob_run_start_percent_is_str:
  "board_field (brd (snd (BackupRestoreJob_run ctrl_ex cfg_empty kwargs_backup (st_idle board_empty))))
     ''backup_restore'' ''percent'' = Some (PyStr ''0'')
   \<and> board_field (brd (snd (BackupRestoreJob_run ctrl_ex cfg_empty kwargs_backup (st_idle board_empty))))
     ''backup_restore'' ''percent'' \<noteq> Some (PyInt 0)"
  by (simp add: BackupRestoreJob_run_def st_idle_def BackupRestoreJob_init_def kwargs_backup_def
        board_field_update)

subsection \<open>C4: fault containment in \<open>handle_job\<close>\<close>

text \<open>
  Claim C4, amended.  If the name is not registered, \<open>handle_job\<close> logs an error and
  returns: manager, jobs and board are unchanged and nothing is raised.  If the name is
  registered, the job's \<open>run\<close> is invoked; when \<open>run\<close> returns, so does
  \<open>handle_job\<close>; when \<open>run\<close> raises an exception that derives from \<open>Exception\<close>,
  it is caught, two error lines are logged (the second carrying the exception) and
  nothing is raised; when \<open>run\<close> raises an exception that does not derive from
  \<open>Exception\<close> (\<open>KeyboardInterrupt\<close>, \<open>SystemExit\<close>, \<open>GeneratorExit\<close>), it leaves
  \<open>handle_job\<close>.  In every case what the body did to the job and the board stays.
\<close>

theorem handle_job_catches_Exception:
  "(map_of (jobs m) n = None \<longrightarrow>
      handle_job now n kw (m, L) =
        (None, m, L @ [Entry ERROR (''could not find job with name: '' @ n) None]))
   \<and> (map_of (jobs m) n = Some (cls, j) \<longrightarrow>
       (let r = run cls now (cfg m) kw \<lparr>self = j, brd = board m, lg = L\<rparr>;
            m' = m\<lparr>jobs := dict_set n (cls, self (snd r)) (jobs m), board := brd (snd r)\<rparr>
        in (fst r = None \<longrightarrow> handle_job now n kw (m, L) = (None, m', lg (snd r)))
         \<and> (\<forall>e. fst r = Some e \<and> isinstance_Exception e \<longrightarrow>
               handle_job now n kw (m, L) =
                 (None, m', lg (snd r) @ [Entry ERROR (''failed running job: '' @ n) None,
                                          Entry ERROR ''EXC'' (Some e)]))
         \<and> (\<forall>e. fst r = Some e \<and> \<not> isinstance_Exception e \<longrightarrow>
               handle_job now n kw (m, L) = (Some e, m', lg (snd r)))))
   \<and> (\<forall>e. fst (handle_job now n kw (m, L)) = Some e \<longrightarrow> \<not> isinstance_Exception e)"
proof (intro conjI impI allI)
  assume "map_of (jobs m) n = None"
  then show "handle_job now n kw (m, L) =
        (None, m, L @ [Entry ERROR (''could not find job with name: '' @ n) None])"
    by (rule handle_job_unregistered)
next
  assume "map_of (jobs m) n = Some (cls, j)"
  then show "(let r = run cls now (cfg m) kw \<lparr>self = j, brd = board m, lg = L\<rparr>;
            m' = m\<lparr>jobs := dict_set n (cls, self (snd r)) (jobs m), board := brd (snd r)\<rparr>
        in (fst r = None \<longrightarrow> handle_job now n kw (m, L) = (None, m', lg (snd r)))
         \<and> (\<forall>e. fst r = Some e \<and> isinstance_Exception e \<longrightarrow>
               handle_job now n kw (m, L) =
                 (None, m', lg (snd r) @ [Entry ERROR (''failed running job: '' @ n) None,
                                          Entry ERROR ''EXC'' (Some e)]))
         \<and> (\<forall>e. fst r = Some e \<and> \<not> isinstance_Exception e \<longrightarrow>
               handle_job now n kw (m, L) = (Some e, m', lg (snd r))))"
    by (simp add: handle_job_registered Let_def)
next
  fix e
  assume e: "fst (handle_job now n kw (m, L)) = Some e"
  show "\<not> isinstance_Exception e"
  proof (cases "map_of (jobs m) n")
    case None
    then show ?thesis using e by (simp add: handle_job_unregistered)
  next
    case (Some cj)
    obtain c i where "cj = (c, i)" by (cases cj) auto
    with Some have "map_of (jobs m) n = Some (c, i)" by simp
    then show ?thesis using e
      by (auto simp add: handle_job_registered Let_def split: option.splits if_splits)
  qed
qed

text \<open>
  C4 exercised: a dispatch to the unregistered name \<open>Nope\<close>, and a dispatch to the
  hardware status job when the file it reads is missing.
\<close>

theorem handle_job_catches_Exception_witness:
  "map_of (jobs (manager_with LEDJob)) ''Nope'' = None
   \<and> handle_job 5000000 ''Nope'' kwargs_empty (manager_with LEDJob, []) =
       (None, manager_with LEDJob, [Entry ERROR ''could not find job with name: Nope'' None])
   \<and> fst (run (HardwareStatusUpdateJob read_missing) 5000000
             (cfg (manager_with (HardwareStatusUpdateJob read_missing))) kwargs_empty
             \<lparr>self = BaseJob_init (Some 7200) 0,
                brd = board (manager_with (HardwareStatusUpdateJob read_missing)), lg = []\<rparr>)
       = Some FileNotFoundError
   \<and> fst (handle_job 5000000 ''HardwareStatusUpdate'' kwargs_empty
             (manager_with (HardwareStatusUpdateJob read_missing), [])) = None
   \<and> snd (snd (handle_job 5000000 ''HardwareStatusUpdate'' kwargs_empty
             (manager_with (HardwareStatusUpdateJob read_missing), []))) =
       [Entry DEBUG ''starting worker job: HardwareStatusUpdate'' None,
        Entry ERROR ''failed running job: HardwareStatusUpdate'' None,
        Entry ERROR ''EXC'' (Some FileNotFoundError)]"
proof -
  let ?hw = "HardwareStatusUpdateJob read_missing"
  let ?r = "run ?hw 5000000 (cfg (manager_with ?hw)) kwargs_empty
              \<lparr>self = BaseJob_init (Some 7200) 0, brd = board (manager_with ?hw), lg = []\<rparr>"
  have u: "map_of (jobs (manager_with LEDJob)) ''Nope'' = None"
    by (simp add: jobs_manager_with LEDJob_def)
  have a: "handle_job 5000000 ''Nope'' kwargs_empty (manager_with LEDJob, []) =
       (None, manager_with LEDJob, [Entry ERROR ''could not find job with name: Nope'' None])"
    using handle_job_catches_Exception [of "manager_with LEDJob" "''Nope''" 5000000 kwargs_empty "[]"] u
    by simp
  have g: "map_of (jobs (manager_with ?hw)) ''HardwareStatusUpdate''
             = Some (?hw, BaseJob_init (Some 7200) 0)"
    by (simp add: jobs_manager_with HardwareStatusUpdateJob_def)
  have r: "fst ?r = Some FileNotFoundError"
          "lg (snd ?r) = [Entry DEBUG ''starting worker job: HardwareStatusUpdate'' None]"
    by (simp_all add: run_def HardwareStatusUpdateJob_def HardwareStatusUpdateJob_run_def
          read_missing_def log_debug_def)
  have "handle_job 5000000 ''HardwareStatusUpdate'' kwargs_empty (manager_with ?hw, []) =
          (None, (manager_with ?hw)
                   \<lparr>jobs := dict_set ''HardwareStatusUpdate'' (?hw, self (snd ?r))
                              (jobs (manager_with ?hw)),
                    board := brd (snd ?r)\<rparr>,
           lg (snd ?r) @ [Entry ERROR (''failed running job: '' @ ''HardwareStatusUpdate'') None,
                          Entry ERROR ''EXC'' (Some FileNotFoundError)])"
    using handle_job_catches_Exception
            [of "manager_with ?hw" "''HardwareStatusUpdate''" 5000000 kwargs_empty "[]" ?hw
                "BaseJob_init (Some 7200) 0"] g r(1)
    by (simp add: Let_def)
  then have b: "fst (handle_job 5000000 ''HardwareStatusUpdate'' kwargs_empty
                  (manager_with ?hw, [])) = None"
    and c: "snd (snd (handle_job 5000000 ''HardwareStatusUpdate'' kwargs_empty
                  (manager_with ?hw, []))) =
       [Entry DEBUG ''starting worker job: HardwareStatusUpdate'' None,
        Entry ERROR ''failed running job: HardwareStatusUpdate'' None,
        Entry ERROR ''EXC'' (Some FileNotFoundError)]"
    using r(2) by simp_all
  show ?thesis using u a r(1) b c by blast
qed

text \<open>
  C4 as stated fails: when the read of the hardware status job is interrupted from the
  keyboard, \<open>KeyboardInterrupt\<close> is not caught by \<open>except Exception\<close> and leaves
  \<open>handle_job\<close>.
\<close>

theorem handle_job_lets_KeyboardInterrupt_through:
  "fst (handle_job 5000000 ''HardwareStatusUpdate'' kwargs_empty
          (manager_with (HardwareStatusUpdateJob read_interrupted), [])) = Some KeyboardInterrupt
   \<and> fst (handle_job 5000000 ''HardwareStatusUpdate'' kwargs_empty
          (manager_with (HardwareStatusUpdateJob read_interrupted), [])) \<noteq> None"
  by (simp add: handle_job_def jobs_manager_with run_def HardwareStatusUpdateJob_def
        HardwareStatusUpdateJob_run_def read_interrupted_def Let_def)

subsection \<open>C5: the timestamp is reset before the body runs\<close>

text \<open>
  Claim C5, amended.  \<open>run\<close> assigns \<open>last_run\<close> the current time \<open>now\<close> and then
  invokes the body: the body receives the job with \<open>last_run = now\<close>, and what \<open>run\<close>
  raises and leaves in the job is what the body raised and left.  For a body that does not
  itself assign \<open>last_run\<close> (none in the repository does), \<open>last_run = now\<close> still
  holds after \<open>run\<close>, whether the body returned or raised.  Consequently the job is not
  due at the reading \<open>now\<close> of the reset (for an interval that is null or not negative);
  at a later reading \<open>now'\<close>, not before \<open>now\<close>, it is due only if more than the
  interval has elapsed since \<open>now\<close>, so it is not due while at most the interval has
  elapsed, and never when the interval is null.  The time the body itself takes counts:
  the job is not due when \<open>run\<close> completes provided the body took no longer than the
  interval, and, as long as the clock does not step back, a failing job is not selected
  again sooner than one full interval after the start of the attempt.
\<close>

theorem run_resets_last_run:
  "(\<forall>s0. last_run (self (snd (body cls cf kw s0))) = last_run (self s0)) \<longrightarrow>
     last_run (self (s\<lparr>lg := log_debug (''starting worker job: '' @ name cls) (lg s),
                         self := (self s)\<lparr>last_run := now\<rparr>\<rparr>)) = now
   \<and> fst (run cls now cf kw s) =
       fst (body cls cf kw (s\<lparr>lg := log_debug (''starting worker job: '' @ name cls) (lg s),
                                self := (self s)\<lparr>last_run := now\<rparr>\<rparr>))
   \<and> self (snd (run cls now cf kw s)) =
       self (snd (body cls cf kw (s\<lparr>lg := log_debug (''starting worker job: '' @ name cls) (lg s),
                                self := (self s)\<lparr>last_run := now\<rparr>\<rparr>)))
   \<and> last_run (self (snd (run cls now cf kw s))) = now
   \<and> ((\<forall>i. interval (self (snd (run cls now cf kw s))) = Some i \<longrightarrow> 0 \<le> i) \<longrightarrow>
         \<not> is_due now (self (snd (run cls now cf kw s))))
   \<and> (\<forall>now'. now \<le> now' \<and> is_due now' (self (snd (run cls now cf kw s))) \<longrightarrow>
         (\<exists>i. interval (self (snd (run cls now cf kw s))) = Some i \<and> i * 1000000 < now' - now))
   \<and> (\<forall>now' i. interval (self (snd (run cls now cf kw s))) = Some i
           \<and> now \<le> now' \<and> now' - now \<le> i * 1000000 \<longrightarrow>
         \<not> is_due now' (self (snd (run cls now cf kw s))))
   \<and> (interval (self (snd (run cls now cf kw s))) = None \<longrightarrow>
         (\<forall>now'. \<not> is_due now' (self (snd (run cls now cf kw s)))))"
proof (intro impI)
  assume pres: "\<forall>s0. last_run (self (snd (body cls cf kw s0))) = last_run (self s0)"
  let ?s2 = "s\<lparr>lg := log_debug (''starting worker job: '' @ name cls) (lg s),
                self := (self s)\<lparr>last_run := now\<rparr>\<rparr>"
  let ?j = "self (snd (run cls now cf kw s))"
  have a: "last_run (self ?s2) = now" by simp
  have b: "fst (run cls now cf kw s) = fst (body cls cf kw ?s2)"
    and c: "?j = self (snd (body cls cf kw ?s2))"
    using run_components [of cls now cf kw s] by blast+
  have d: "last_run ?j = now"
    using pres a c by metis
  have e: "(\<forall>i. interval ?j = Some i \<longrightarrow> 0 \<le> i) \<longrightarrow> \<not> is_due now ?j"
    using is_due_zero_elapsed [of ?j] d by simp
  have f: "\<forall>now'. now \<le> now' \<and> is_due now' ?j \<longrightarrow>
             (\<exists>i. interval ?j = Some i \<and> i * 1000000 < now' - now)"
    using is_due_elapsed [of ?j] d by simp
  have g: "\<forall>now' i. interval ?j = Some i \<and> now \<le> now' \<and> now' - now \<le> i * 1000000 \<longrightarrow>
             \<not> is_due now' ?j"
  proof (intro allI impI notI)
    fix now' i
    assume h: "interval ?j = Some i \<and> now \<le> now' \<and> now' - now \<le> i * 1000000"
      and due: "is_due now' ?j"
    from f h due obtain i' where "interval ?j = Some i'" "i' * 1000000 < now' - now"
      by blast
    with h show False by simp
  qed
  have n: "interval ?j = None \<longrightarrow> (\<forall>now'. \<not> is_due now' ?j)"
    by (simp add: is_due_def)
  show "last_run (self ?s2) = now
   \<and> fst (run cls now cf kw s) = fst (body cls cf kw ?s2)
   \<and> ?j = self (snd (body cls cf kw ?s2))
   \<and> last_run ?j = now
   \<and> ((\<forall>i. interval ?j = Some i \<longrightarrow> 0 \<le> i) \<longrightarrow> \<not> is_due now ?j)
   \<and> (\<forall>now'. now \<le> now' \<and> is_due now' ?j \<longrightarrow>
         (\<exists>i. interval ?j = Some i \<and> i * 1000000 < now' - now))
   \<and> (\<forall>now' i. interval ?j = Some i \<and> now \<le> now' \<and> now' - now \<le> i * 1000000 \<longrightarrow>
         \<not> is_due now' ?j)
   \<and> (interval ?j = None \<longrightarrow> (\<forall>now'. \<not> is_due now' ?j))"
    using a b c d e f g n by blast
qed

text \<open>
  C5 exercised on the hardware status job (interval 7200) when the file it reads is
  missing: \<open>run\<close> raises \<open>FileNotFoundError\<close>, \<open>last_run\<close> is the time of the
  attempt, and the job is due neither at once nor 7200 seconds later.
\<close>

theorem run_resets_last_run_witness:
  "fst (run (HardwareStatusUpdateJob read_missing) 5000000 cfg_empty kwargs_empty
          (st_job (BaseJob_init (Some 7200) 0))) = Some FileNotFoundError
   \<and> last_run (self (snd (run (HardwareStatusUpdateJob read_missing) 5000000 cfg_empty kwargs_empty
          (st_job (BaseJob_init (Some 7200) 0))))) = 5000000
   \<and> \<not> is_due 5000000
         (self (snd (run (HardwareStatusUpdateJob read_missing) 5000000 cfg_empty kwargs_empty
            (st_job (BaseJob_init (Some 7200) 0)))))
   \<and> \<not> is_due (5000000 + 7200 * 1000000)
         (self (snd (run (HardwareStatusUpdateJob read_missing) 5000000 cfg_empty kwargs_empty
            (st_job (BaseJob_init (Some 7200) 0)))))"
proof -
  let ?cls = "HardwareStatusUpdateJob read_missing"
  let ?r = "run ?cls 5000000 cfg_empty kwargs_empty (st_job (BaseJob_init (Some 7200) 0))"
  have h: "\<forall>s0. last_run (self (snd (body ?cls cfg_empty kwargs_empty s0))) = last_run (self s0)"
    by (simp add: HardwareStatusUpdateJob_def bodies_keep_last_run)
  note t = run_resets_last_run
             [where cls = "?cls" and cf = cfg_empty and kw = kwargs_empty and now = 5000000
                and s = "st_job (BaseJob_init (Some 7200) 0)", THEN mp, OF h]
  have r: "fst ?r = Some FileNotFoundError" "interval (self (snd ?r)) = Some 7200"
    by (simp_all add: run_def HardwareStatusUpdateJob_def HardwareStatusUpdateJob_run_def
          read_missing_def st_job_def BaseJob_init_def)
  from t have l: "last_run (self (snd ?r)) = 5000000" by blast
  from t have "(\<forall>i. interval (self (snd ?r)) = Some i \<longrightarrow> 0 \<le> i) \<longrightarrow> \<not> is_due 5000000 (self (snd ?r))"
    by blast
  with r(2) have d0: "\<not> is_due 5000000 (self (snd ?r))" by simp
  from t have "5000000 \<le> (5000000 + 7200 * 1000000 :: int)
                 \<and> is_due (5000000 + 7200 * 1000000) (self (snd ?r)) \<longrightarrow>
         (\<exists>i. interval (self (snd ?r)) = Some i \<and> i * 1000000 < (5000000 + 7200 * 1000000) - 5000000)"
    by blast
  with r(2) have d1: "\<not> is_due (5000000 + 7200 * 1000000) (self (snd ?r))" by auto
  show ?thesis using r(1) l d0 d1 by blast
qed

text \<open>
  C5 as stated fails.  A running backup (interval 1) is advanced by \<open>run\<close> when the clock
  reads 5 s, and pulling the record takes the body two seconds: \<open>run\<close> returns normally,
  and \<open>is_due\<close>, which reads the clock anew, finds the job due at 7 s, the moment
  \<open>run\<close> completes.  And the hardware status job (interval 7200) whose attempt at 5 s
  failed is due at once when the clock is stepped back by one hour, sooner than one
  interval after the failed attempt.  Neither body assigns \<open>last_run\<close>, which is 5 s
  after both runs.
\<close>

theorem run_then_due_at_completion:
  "fst (run (BackupRestoreJob_cls ctrl_ex) 5000000 cfg_empty kwargs_empty
          (st_running (export_ex ''/tmp/x.tar''))) = None
   \<and> last_run (self (snd (run (BackupRestoreJob_cls ctrl_ex) 5000000 cfg_empty kwargs_empty
          (st_running (export_ex ''/tmp/x.tar''))))) = 5000000
   \<and> interval (self (snd (run (BackupRestoreJob_cls ctrl_ex) 5000000 cfg_empty kwargs_empty
          (st_running (export_ex ''/tmp/x.tar''))))) = Some 1
   \<and> is_due 7000000
        (self (snd (run (BackupRestoreJob_cls ctrl_ex) 5000000 cfg_empty kwargs_empty
           (st_running (export_ex ''/tmp/x.tar'')))))
   \<and> fst (run (HardwareStatusUpdateJob read_missing) 5000000 cfg_empty kwargs_empty
          (st_job (BaseJob_init (Some 7200) 0))) = Some FileNotFoundError
   \<and> last_run (self (snd (run (HardwareStatusUpdateJob read_missing) 5000000 cfg_empty
          kwargs_empty (st_job (BaseJob_init (Some 7200) 0))))) = 5000000
   \<and> is_due (5000000 - 3600 * 1000000)
        (self (snd (run (HardwareStatusUpdateJob read_missing) 5000000 cfg_empty kwargs_empty
           (st_job (BaseJob_init (Some 7200) 0)))))"
  by (simp add: run_def BackupRestoreJob_cls_def BackupRestoreJob_run_def st_running_def
        export_ex_def HardwareStatusUpdateJob_def HardwareStatusUpdateJob_run_def
        read_missing_def st_job_def BaseJob_init_def is_due_def seconds_def)

subsection \<open>C6: the first due job in registration order\<close>

text \<open>
  Claim C6, amended.  \<open>get_recurring_job\<close> scans the jobs in the order of the dict,
  which is the order in which the names were first registered, reading the clock once per
  job: it returns \<open>None\<close> iff no job is due at its reading, and the name \<open>n\<close> iff
  \<open>n\<close> is the name of the first job that is due at its reading.  It is a function of
  the jobs and the clock readings alone and changes nothing, so two calls that read the
  same clock values on the same jobs return the same result.
\<close>

theorem get_recurring_job_first_due:
  "(get_recurring_job clock m = None \<longleftrightarrow>
      (\<forall>i<length (jobs m). \<not> is_due (clock i) (snd (snd (jobs m ! i)))))
   \<and> (get_recurring_job clock m = Some n \<longleftrightarrow>
        (\<exists>i<length (jobs m). fst (jobs m ! i) = n \<and> is_due (clock i) (snd (snd (jobs m ! i)))
            \<and> (\<forall>l<i. \<not> is_due (clock l) (snd (snd (jobs m ! l))))))
   \<and> ((\<forall>i<length (jobs m). clock i = clock' i) \<longrightarrow>
        get_recurring_job clock m = get_recurring_job clock' m)
   \<and> map fst (jobs (fst (register_job now c (m, L)))) =
       (if name c \<in> set (map fst (jobs m)) then map fst (jobs m) else map fst (jobs m) @ [name c])"
  using first_due_None [of clock 0 "jobs m"] first_due_Some [of clock 0 "jobs m" n]
        first_due_cong [of "jobs m" clock 0 clock']
  by (simp add: get_recurring_job_def register_job_def Let_def keys_dict_set)

text \<open>
  C6 exercised on a manager holding the LED job (interval 1, created at time 0).
\<close>

theorem get_recurring_job_first_due_witness:
  "get_recurring_job (clock_at 2500000) (manager_with LEDJob) = Some ''LED''
   \<and> get_recurring_job (clock_at 1500000) (manager_with LEDJob) = None
   \<and> map fst (jobs (manager_with LEDJob)) = [''LED'']"
proof -
  have j: "jobs (manager_with LEDJob) = [(''LED'', LEDJob, \<lparr>interval = Some 1, last_run = 0\<rparr>)]"
    by (simp add: manager_with_def register_job_def JobManager_def Let_def LEDJob_def
          BaseJob_init_def)
  have d: "is_due (clock_at 2500000 0) \<lparr>interval = Some 1, last_run = 0\<rparr>"
          "\<not> is_due (clock_at 1500000 0) \<lparr>interval = Some 1, last_run = 0\<rparr>"
    by (simp_all add: is_due_def clock_at_def seconds_def)
  note t1 = get_recurring_job_first_due [of "clock_at 2500000" "manager_with LEDJob" "''LED''"]
  note t2 = get_recurring_job_first_due [of "clock_at 1500000" "manager_with LEDJob"]
  have a: "get_recurring_job (clock_at 2500000) (manager_with LEDJob) = Some ''LED''"
    using t1 j d by simp
  have b: "get_recurring_job (clock_at 1500000) (manager_with LEDJob) = None"
    using t2 j d by simp
  show ?thesis using a b j by simp
qed

text \<open>
  C6 as stated fails: with no dispatch in between, a call 1.5 seconds after the LED job
  was created returns \<open>None\<close> and a call one second later returns its name.
\<close>

theorem get_recurring_job_depends_on_clock:
  "get_recurring_job (clock_at 1500000) (manager_with LEDJob) = None
   \<and> get_recurring_job (clock_at 2500000) (manager_with LEDJob) = Some ''LED''
   \<and> get_recurring_job (clock_at 1500000) (manager_with LEDJob)
       \<noteq> get_recurring_job (clock_at 2500000) (manager_with LEDJob)"
  by (simp add: get_recurring_job_def manager_with_def register_job_def JobManager_def Let_def
        LEDJob_def BaseJob_init_def is_due_def clock_at_def seconds_def)

subsection \<open>C7: a malformed start request\<close>

text \<open>
  Claim C7.  Invoked while idle with \<open>tar_path\<close> or \<open>mode\<close> missing, or with a mode
  other than \<open>backup\<close> and \<open>restore\<close>, the job puts exactly one message on the board's
  message queue (and logs it as an error); the job instance is unchanged, so the interval
  is as before and there is no iterator; no topic of the board is written; nothing is
  raised.
\<close>

theorem BackupRestoreJob_run_invalid:
  "iterator (self s) = None
     \<and> (kw ''tar_path'' = None \<or> kw ''mode'' = None
          \<or> (kw ''mode'' \<noteq> Some ''backup'' \<and> kw ''mode'' \<noteq> Some ''restore'')) \<longrightarrow>
   fst (BackupRestoreJob_run c cf kw s) = None
   \<and> self (snd (BackupRestoreJob_run c cf kw s)) = self s
   \<and> topics (brd (snd (BackupRestoreJob_run c cf kw s))) = topics (brd s)
   \<and> (\<exists>msg. messages (brd (snd (BackupRestoreJob_run c cf kw s))) = messages (brd s) @ [msg]
             \<and> lg (snd (BackupRestoreJob_run c cf kw s)) = lg s @ [Entry ERROR msg None])"
proof (intro impI)
  assume a: "iterator (self s) = None
     \<and> (kw ''tar_path'' = None \<or> kw ''mode'' = None
          \<or> (kw ''mode'' \<noteq> Some ''backup'' \<and> kw ''mode'' \<noteq> Some ''restore''))"
  then obtain msg where "BackupRestoreJob_run c cf kw s =
           (None, s\<lparr>lg := log_error msg None (lg s), brd := Board_messages_put msg (brd s)\<rparr>)"
    using run_idle_invalid [of s kw c cf] by blast
  then show "fst (BackupRestoreJob_run c cf kw s) = None
   \<and> self (snd (BackupRestoreJob_run c cf kw s)) = self s
   \<and> topics (brd (snd (BackupRestoreJob_run c cf kw s))) = topics (brd s)
   \<and> (\<exists>msg. messages (brd (snd (BackupRestoreJob_run c cf kw s))) = messages (brd s) @ [msg]
             \<and> lg (snd (BackupRestoreJob_run c cf kw s)) = lg s @ [Entry ERROR msg None])"
    by (simp add: Board_messages_put_def log_error_def)
qed

text \<open>C7 exercised on the mode \<open>delete\<close> with an idle job and an empty board.\<close>

theorem BackupRestoreJob_run_invalid_witness:
  "iterator (self (st_idle board_empty)) = None
   \<and> kwargs_delete ''mode'' \<noteq> Some ''backup'' \<and> kwargs_delete ''mode'' \<noteq> Some ''restore''
   \<and> interval (self (snd (BackupRestoreJob_run ctrl_ex cfg_empty kwargs_delete (st_idle board_empty))))
        = None
   \<and> iterator (self (snd (BackupRestoreJob_run ctrl_ex cfg_empty kwargs_delete (st_idle board_empty))))
        = None
   \<and> length (messages (brd (snd (BackupRestoreJob_run ctrl_ex cfg_empty kwargs_delete
                                   (st_idle board_empty))))) = 1
   \<and> topics (brd (snd (BackupRestoreJob_run ctrl_ex cfg_empty kwargs_delete (st_idle board_empty))))
        ''backup_restore'' = None"
proof -
  have h: "iterator (self (st_idle board_empty)) = None
     \<and> (kwargs_delete ''tar_path'' = None \<or> kwargs_delete ''mode'' = None
          \<or> (kwargs_delete ''mode'' \<noteq> Some ''backup'' \<and> kwargs_delete ''mode'' \<noteq> Some ''restore''))"
    by (simp add: st_idle_def BackupRestoreJob_init_def kwargs_delete_def)
  have k: "kwargs_delete ''mode'' \<noteq> Some ''backup''" "kwargs_delete ''mode'' \<noteq> Some ''restore''"
    by (simp_all add: kwargs_delete_def)
  have i: "interval (self (st_idle board_empty)) = None" "messages (brd (st_idle board_empty)) = []"
    "topics (brd (st_idle board_empty)) ''backup_restore'' = None"
    by (simp_all add: st_idle_def BackupRestoreJob_init_def board_empty_def)
  show ?thesis
    using h i k BackupRestoreJob_run_invalid [THEN mp, OF h, of ctrl_ex cfg_empty]
    by auto
qed

subsection \<open>C8: one instance per name\<close>

text \<open>
  Claim C8.  After any sequence of \<open>register_job\<close> calls on a new manager, no name
  occurs twice in the registry, and a name is mapped to the instance created by the last
  registration under that name.  Registering under a name that is present replaces the
  instance in place and logs a warning.  A dispatch by a name runs the instance the
  registry holds under that name and leaves it registered under its class, so every later
  dispatch reaches it too.
\<close>

theorem register_job_one_instance_per_name:
  "distinct (map fst (jobs (fst (register_all rs (JobManager config b, L)))))
   \<and> ((\<forall>r\<in>set rs2. name (snd r) \<noteq> name c) \<longrightarrow>
        map_of (jobs (fst (register_all (rs1 @ (t, c) # rs2) (JobManager config b, L)))) (name c)
          = Some (c, init c t))
   \<and> (map_of (jobs (fst mL)) (name c) \<noteq> None \<longrightarrow>
        map_of (jobs (fst (register_job t c mL))) (name c) = Some (c, init c t)
        \<and> map fst (jobs (fst (register_job t c mL))) = map fst (jobs (fst mL))
        \<and> snd (register_job t c mL) =
            snd mL @ [Entry INFO (''registering job '' @ name c) None,
                      Entry WARNING (''overwriting job (during register) with name: '' @ name c)
                        None])
   \<and> (map_of (jobs m) n = Some (cls, j) \<longrightarrow>
        map_of (jobs (fst (snd (handle_job now n kw (m, L'))))) n =
          Some (cls, self (snd (run cls now (cfg m) kw \<lparr>self = j, brd = board m, lg = L'\<rparr>)))
        \<and> board (fst (snd (handle_job now n kw (m, L')))) =
            brd (snd (run cls now (cfg m) kw \<lparr>self = j, brd = board m, lg = L'\<rparr>)))"
proof (intro conjI impI)
  show "distinct (map fst (jobs (fst (register_all rs (JobManager config b, L)))))"
    by (rule register_all_distinct) (simp add: JobManager_def)
next
  assume "\<forall>r\<in>set rs2. name (snd r) \<noteq> name c"
  then show "map_of (jobs (fst (register_all (rs1 @ (t, c) # rs2) (JobManager config b, L))))
               (name c) = Some (c, init c t)"
    by (rule register_all_last_wins)
next
  show "map_of (jobs (fst (register_job t c mL))) (name c) = Some (c, init c t)"
    by (simp add: register_job_lookup)
next
  assume "map_of (jobs (fst mL)) (name c) \<noteq> None"
  then show "map fst (jobs (fst (register_job t c mL))) = map fst (jobs (fst mL))"
    using register_job_existing by blast
next
  assume "map_of (jobs (fst mL)) (name c) \<noteq> None"
  then show "snd (register_job t c mL) =
            snd mL @ [Entry INFO (''registering job '' @ name c) None,
                      Entry WARNING (''overwriting job (during register) with name: '' @ name c)
                        None]"
    using register_job_existing by blast
next
  assume "map_of (jobs m) n = Some (cls, j)"
  then show "map_of (jobs (fst (snd (handle_job now n kw (m, L'))))) n =
          Some (cls, self (snd (run cls now (cfg m) kw \<lparr>self = j, brd = board m, lg = L'\<rparr>)))"
    using handle_job_reaches by blast
next
  assume "map_of (jobs m) n = Some (cls, j)"
  then show "board (fst (snd (handle_job now n kw (m, L')))) =
            brd (snd (run cls now (cfg m) kw \<lparr>self = j, brd = board m, lg = L'\<rparr>))"
    using handle_job_reaches by blast
qed

text \<open>
  C8 exercised on two registrations under the name \<open>HardwareStatusUpdate\<close>: the registry
  holds the second instance only, the warning is the last log line, and a dispatch
  publishes the temperature that only the second instance can read.
\<close>

theorem register_job_one_instance_per_name_witness:
  "map_of (jobs (fst registered_twice)) ''HardwareStatusUpdate''
     = Some (HardwareStatusUpdateJob read_ok, BaseJob_init (Some 7200) 1000000)
   \<and> map fst (jobs (fst registered_twice)) = [''HardwareStatusUpdate'']
   \<and> distinct (map fst (jobs (fst registered_twice)))
   \<and> last (snd registered_twice)
       = Entry WARNING ''overwriting job (during register) with name: HardwareStatusUpdate'' None
   \<and> board_field (board (fst (snd (handle_job 2000000 ''HardwareStatusUpdate'' kwargs_empty
                                      registered_twice))))
        ''hwinfo'' ''temp'' = Some (PyStr ''48312'')"
proof -
  let ?c1 = "HardwareStatusUpdateJob read_missing"
  let ?c2 = "HardwareStatusUpdateJob read_ok"
  let ?mL1 = "register_job 0 ?c1 (JobManager cfg_empty board_empty, [])"
  have n: "name ?c1 = ''HardwareStatusUpdate''" "name ?c2 = ''HardwareStatusUpdate''"
          "init ?c2 1000000 = BaseJob_init (Some 7200) 1000000"
    by (simp_all add: HardwareStatusUpdateJob_def)
  have rt: "registered_twice = register_job 1000000 ?c2 ?mL1"
    by (simp add: registered_twice_def)
  have rt': "registered_twice =
               register_all ([(0, ?c1)] @ (1000000, ?c2) # []) (JobManager cfg_empty board_empty, [])"
    by (simp add: registered_twice_def)
  have e: "\<forall>r\<in>set ([] :: (datetime \<times> job job_class) list). name (snd r) \<noteq> name ?c2"
    by simp
  note t = register_job_one_instance_per_name
             [where rs = "[(0, ?c1), (1000000, ?c2)]" and config = cfg_empty and b = board_empty
                and L = "[]" and ?rs1.0 = "[(0, ?c1)]" and ?rs2.0 = "[]" and t = 1000000
                and c = ?c2 and mL = ?mL1 and m = "fst registered_twice"
                and n = "''HardwareStatusUpdate''" and cls = ?c2
                and j = "BaseJob_init (Some 7200) 1000000" and now = 2000000
                and kw = kwargs_empty and L' = "snd registered_twice"]
  from t e have a: "map_of (jobs (fst registered_twice)) ''HardwareStatusUpdate''
                      = Some (?c2, BaseJob_init (Some 7200) 1000000)"
    unfolding rt' [symmetric] n by blast
  from t have d: "distinct (map fst (jobs (fst registered_twice)))"
    by (simp add: registered_twice_def)
  have p: "map_of (jobs (fst ?mL1)) (name ?c2) \<noteq> None"
    by (simp add: register_job_lookup n)
  have k1: "map fst (jobs (fst ?mL1)) = [''HardwareStatusUpdate'']"
    by (simp add: jobs_register_job JobManager_def n)
  from t p have "map fst (jobs (fst (register_job 1000000 ?c2 ?mL1))) = map fst (jobs (fst ?mL1))"
    by blast
  then have k: "map fst (jobs (fst registered_twice)) = [''HardwareStatusUpdate'']"
    using k1 rt by simp
  from t p have "snd (register_job 1000000 ?c2 ?mL1) =
            snd ?mL1 @ [Entry INFO (''registering job '' @ name ?c2) None,
                      Entry WARNING (''overwriting job (during register) with name: '' @ name ?c2)
                        None]"
    by blast
  then have w: "last (snd registered_twice)
       = Entry WARNING ''overwriting job (during register) with name: HardwareStatusUpdate'' None"
    using rt n by simp
  from t a have "board (fst (snd (handle_job 2000000 ''HardwareStatusUpdate'' kwargs_empty
                                    (fst registered_twice, snd registered_twice)))) =
            brd (snd (run ?c2 2000000 (cfg (fst registered_twice)) kwargs_empty
                   \<lparr>self = BaseJob_init (Some 7200) 1000000, brd = board (fst registered_twice),
                      lg = snd registered_twice\<rparr>))"
    by blast
  then have h: "board_field (board (fst (snd (handle_job 2000000 ''HardwareStatusUpdate''
                   kwargs_empty registered_twice)))) ''hwinfo'' ''temp'' = Some (PyStr ''48312'')"
    by (simp add: run_def HardwareStatusUpdateJob_def HardwareStatusUpdateJob_run_def read_ok_def
          board_field_set strip_def is_space_def)
  show ?thesis using a k d w h by blast
qed

subsection \<open>C9: the due check compares the seconds component only\<close>

text \<open>
  Claim C9.  For a job with a non-null interval \<open>i\<close>, \<open>is_due\<close> compares only the
  seconds-within-a-day component of the elapsed time: when \<open>d\<close> days, \<open>t\<close> seconds
  (\<open>0 \<le> t < 86400\<close>) and \<open>us\<close> microseconds (\<open>0 \<le> us < 1000000\<close>) have elapsed since
  \<open>last_run\<close>, the job is due iff \<open>i < t\<close>, whatever \<open>d\<close> is.  In particular a job
  whose interval is 86400 seconds or more is never due.
\<close>

theorem is_due_seconds_component:
  "(interval j = Some i \<and> 0 \<le> t \<and> t < 86400 \<and> 0 \<le> us \<and> us < 1000000
      \<longrightarrow> is_due (last_run j + timedelta d t us) j = (i < t))
   \<and> (interval j = Some i \<and> 86400 \<le> i \<longrightarrow> \<not> is_due now j)
   \<and> (0 \<le> t \<and> t < 86400 \<and> 0 \<le> us \<and> us < 1000000
      \<longrightarrow> days (timedelta d t us) = d \<and> seconds (timedelta d t us) = t
          \<and> microseconds (timedelta d t us) = us)"
proof (intro conjI impI)
  assume "interval j = Some i \<and> 0 \<le> t \<and> t < 86400 \<and> 0 \<le> us \<and> us < 1000000"
  then show "is_due (last_run j + timedelta d t us) j = (i < t)"
    by (simp add: is_due_def seconds_timedelta)
next
  assume a: "interval j = Some i \<and> 86400 \<le> i"
  have "seconds (now - last_run j) < 86400" using seconds_range by blast
  with a show "\<not> is_due now j" by (simp add: is_due_def)
next
  assume "0 \<le> t \<and> t < 86400 \<and> 0 \<le> us \<and> us < 1000000"
  then show "days (timedelta d t us) = d" by (simp add: days_timedelta)
next
  assume "0 \<le> t \<and> t < 86400 \<and> 0 \<le> us \<and> us < 1000000"
  then show "seconds (timedelta d t us) = t" by (simp add: seconds_timedelta)
next
  assume "0 \<le> t \<and> t < 86400 \<and> 0 \<le> us \<and> us < 1000000"
  then show "microseconds (timedelta d t us) = us" by (simp add: microseconds_timedelta)
qed

text \<open>
  C9 exercised: with interval 10, two days and 5 seconds after the last run the job is not
  due, 11 seconds after it the job is due, and with interval 86400 it is not due a day and
  a half later.
\<close>

theorem is_due_seconds_component_witness:
  "interval (BaseJob_init (Some 10) 0) = Some 10
   \<and> is_due (timedelta 2 5 0) (BaseJob_init (Some 10) 0) = False
   \<and> is_due (timedelta 0 11 0) (BaseJob_init (Some 10) 0) = True
   \<and> \<not> is_due (timedelta 1 43200 0) (BaseJob_init (Some 86400) 0)"
  using is_due_seconds_component [of "BaseJob_init (Some 10) 0" 10 5 0 2]
        is_due_seconds_component [of "BaseJob_init (Some 10) 0" 10 11 0 0]
        is_due_seconds_component [of "BaseJob_init (Some 86400) 0" 86400 0 0 0 "timedelta 1 43200 0"]
  by (simp add: BaseJob_init_def)

subsection \<open>C10: merge at the start, replace afterwards\<close>

text \<open>
  Claim C10.  The initial record is published with \<open>update\<close> (merge): every field
  that the topic \<open>backup_restore\<close> held before the start call, other than the six of the
  initial record, is still there after it.  The progress records are published with
  \<open>set\<close> (replace): after the first one, \<open>tar_path\<close> and \<open>mode\<close> are gone from
  the topic, which holds the four fields of the progress record and nothing else.
\<close>

theorem BackupRestoreJob_update_then_set:
  "iterator (self s) = None \<and> kw ''tar_path'' = Some p \<and> kw ''mode'' = Some m
     \<and> (m = ''backup'' \<or> m = ''restore'')
     \<and> (if m = ''backup'' then full_export c p else full_import c p)
           = (state, (who, what), percent) # rest \<longrightarrow>
   brd (snd (BackupRestoreJob_run c cf kw s)) =
     Board_update ''backup_restore''
       [''state'' \<mapsto> PyStr ''starting'', ''percent'' \<mapsto> PyStr ''0'', ''who'' \<mapsto> PyStr ''all'',
        ''tar_path'' \<mapsto> PyStr p,
        ''what'' \<mapsto> PyStr (if m = ''backup'' then ''export'' else ''import''),
        ''mode'' \<mapsto> PyStr m] (brd s)
   \<and> (\<forall>k. k \<notin> set [''state'', ''percent'', ''who'', ''tar_path'', ''what'', ''mode''] \<longrightarrow>
          board_field (brd (snd (BackupRestoreJob_run c cf kw s))) ''backup_restore'' k
            = board_field (brd s) ''backup_restore'' k)
   \<and> board_field (brd (snd (BackupRestoreJob_run c cf kw s))) ''backup_restore'' ''tar_path''
        = Some (PyStr p)
   \<and> board_field (brd (snd (BackupRestoreJob_run c cf kw s))) ''backup_restore'' ''mode''
        = Some (PyStr m)
   \<and> brd (snd (BackupRestoreJob_run c cf kw' (snd (BackupRestoreJob_run c cf kw s)))) =
       Board_set ''backup_restore''
         [''state'' \<mapsto> PyStr state, ''who'' \<mapsto> PyStr who,
          ''what'' \<mapsto> PyStr what, ''percent'' \<mapsto> PyInt percent]
         (brd (snd (BackupRestoreJob_run c cf kw s)))
   \<and> board_field (brd (snd (BackupRestoreJob_run c cf kw' (snd (BackupRestoreJob_run c cf kw s)))))
        ''backup_restore'' ''tar_path'' = None
   \<and> board_field (brd (snd (BackupRestoreJob_run c cf kw' (snd (BackupRestoreJob_run c cf kw s)))))
        ''backup_restore'' ''mode'' = None
   \<and> (\<forall>k. k \<notin> set [''state'', ''who'', ''what'', ''percent''] \<longrightarrow>
          board_field (brd (snd (BackupRestoreJob_run c cf kw' (snd (BackupRestoreJob_run c cf kw s)))))
            ''backup_restore'' k = None)"
proof (intro impI)
  assume a: "iterator (self s) = None \<and> kw ''tar_path'' = Some p \<and> kw ''mode'' = Some m
     \<and> (m = ''backup'' \<or> m = ''restore'')
     \<and> (if m = ''backup'' then full_export c p else full_import c p)
           = (state, (who, what), percent) # rest"
  define s1 where "s1 = snd (BackupRestoreJob_run c cf kw s)"
  define s2 where "s2 = snd (BackupRestoreJob_run c cf kw' s1)"
  have e1: "s1 = s\<lparr>brd := Board_update ''backup_restore'' (starting_dict p m) (brd s),
                     self := (self s)\<lparr>iterator := Some ((state, (who, what), percent) # rest),
                                       interval := Some 1\<rparr>\<rparr>"
    using a run_idle_start [of s kw p m c cf] by (simp add: s1_def)
  then have "iterator (self s1) = Some ((state, (who, what), percent) # rest)"
    by simp
  then have e2: "s2 = s1\<lparr>self := (self s1)\<lparr>iterator := Some rest\<rparr>,
                     brd := Board_set ''backup_restore''
                              (progress_dict (state, (who, what), percent)) (brd s1)\<rparr>"
    using run_active_record [of s1 "(state, (who, what), percent)" rest c cf kw']
    by (simp add: s2_def)
  have b1: "brd s1 = Board_update ''backup_restore'' (starting_dict p m) (brd s)"
    using e1 by simp
  have b2: "brd s2 = Board_set ''backup_restore''
                       (progress_dict (state, (who, what), percent)) (brd s1)"
    using e2 by simp
  have "brd s1 =
     Board_update ''backup_restore''
       [''state'' \<mapsto> PyStr ''starting'', ''percent'' \<mapsto> PyStr ''0'', ''who'' \<mapsto> PyStr ''all'',
        ''tar_path'' \<mapsto> PyStr p,
        ''what'' \<mapsto> PyStr (if m = ''backup'' then ''export'' else ''import''),
        ''mode'' \<mapsto> PyStr m] (brd s)
   \<and> (\<forall>k. k \<notin> set [''state'', ''percent'', ''who'', ''tar_path'', ''what'', ''mode''] \<longrightarrow>
          board_field (brd s1) ''backup_restore'' k = board_field (brd s) ''backup_restore'' k)
   \<and> board_field (brd s1) ''backup_restore'' ''tar_path'' = Some (PyStr p)
   \<and> board_field (brd s1) ''backup_restore'' ''mode'' = Some (PyStr m)
   \<and> brd s2 =
       Board_set ''backup_restore''
         [''state'' \<mapsto> PyStr state, ''who'' \<mapsto> PyStr who,
          ''what'' \<mapsto> PyStr what, ''percent'' \<mapsto> PyInt percent] (brd s1)
   \<and> board_field (brd s2) ''backup_restore'' ''tar_path'' = None
   \<and> board_field (brd s2) ''backup_restore'' ''mode'' = None
   \<and> (\<forall>k. k \<notin> set [''state'', ''who'', ''what'', ''percent''] \<longrightarrow>
          board_field (brd s2) ''backup_restore'' k = None)"
    unfolding b2 unfolding b1
    by (simp add: board_field_set board_field_update starting_dict_def progress_dict_def)
  then show "brd (snd (BackupRestoreJob_run c cf kw s)) =
     Board_update ''backup_restore''
       [''state'' \<mapsto> PyStr ''starting'', ''percent'' \<mapsto> PyStr ''0'', ''who'' \<mapsto> PyStr ''all'',
        ''tar_path'' \<mapsto> PyStr p,
        ''what'' \<mapsto> PyStr (if m = ''backup'' then ''export'' else ''import''),
        ''mode'' \<mapsto> PyStr m] (brd s)
   \<and> (\<forall>k. k \<notin> set [''state'', ''percent'', ''who'', ''tar_path'', ''what'', ''mode''] \<longrightarrow>
          board_field (brd (snd (BackupRestoreJob_run c cf kw s))) ''backup_restore'' k
            = board_field (brd s) ''backup_restore'' k)
   \<and> board_field (brd (snd (BackupRestoreJob_run c cf kw s))) ''backup_restore'' ''tar_path''
        = Some (PyStr p)
   \<and> board_field (brd (snd (BackupRestoreJob_run c cf kw s))) ''backup_restore'' ''mode''
        = Some (PyStr m)
   \<and> brd (snd (BackupRestoreJob_run c cf kw' (snd (BackupRestoreJob_run c cf kw s)))) =
       Board_set ''backup_restore''
         [''state'' \<mapsto> PyStr state, ''who'' \<mapsto> PyStr who,
          ''what'' \<mapsto> PyStr what, ''percent'' \<mapsto> PyInt percent]
         (brd (snd (BackupRestoreJob_run c cf kw s)))
   \<and> board_field (brd (snd (BackupRestoreJob_run c cf kw' (snd (BackupRestoreJob_run c cf kw s)))))
        ''backup_restore'' ''tar_path'' = None
   \<and> board_field (brd (snd (BackupRestoreJob_run c cf kw' (snd (BackupRestoreJob_run c cf kw s)))))
        ''backup_restore'' ''mode'' = None
   \<and> (\<forall>k. k \<notin> set [''state'', ''who'', ''what'', ''percent''] \<longrightarrow>
          board_field (brd (snd (BackupRestoreJob_run c cf kw' (snd (BackupRestoreJob_run c cf kw s)))))
            ''backup_restore'' k = None)"
    unfolding s2_def s1_def .
qed

text \<open>
  C10 exercised: a field \<open>error\<close> left in the topic survives the start call and is gone,
  with \<open>tar_path\<close>, after the first progress record.
\<close>

theorem BackupRestoreJob_update_then_set_witness:
  "iterator (self (st_idle board_leftover)) = None
   \<and> full_export ctrl_ex ''/tmp/x.tar'' = (''running'', (''a'', ''files''), 10) # tl (export_ex ''/tmp/x.tar'')
   \<and> board_field (brd (st_idle board_leftover)) ''backup_restore'' ''error'' = Some (PyStr ''disk full'')
   \<and> board_field (brd (snd (BackupRestoreJob_run ctrl_ex cfg_empty kwargs_backup (st_idle board_leftover))))
        ''backup_restore'' ''error'' = Some (PyStr ''disk full'')
   \<and> board_field (brd (snd (BackupRestoreJob_run ctrl_ex cfg_empty kwargs_backup (st_idle board_leftover))))
        ''backup_restore'' ''tar_path'' = Some (PyStr ''/tmp/x.tar'')
   \<and> board_field (brd (snd (BackupRestoreJob_run ctrl_ex cfg_empty kwargs_empty
           (snd (BackupRestoreJob_run ctrl_ex cfg_empty kwargs_backup (st_idle board_leftover))))))
        ''backup_restore'' ''tar_path'' = None
   \<and> board_field (brd (snd (BackupRestoreJob_run ctrl_ex cfg_empty kwargs_empty
           (snd (BackupRestoreJob_run ctrl_ex cfg_empty kwargs_backup (st_idle board_leftover))))))
        ''backup_restore'' ''error'' = None"
proof -
  have h: "iterator (self (st_idle board_leftover)) = None
     \<and> kwargs_backup ''tar_path'' = Some ''/tmp/x.tar'' \<and> kwargs_backup ''mode'' = Some ''backup''
     \<and> (''backup'' = ''backup'' \<or> ''backup'' = ''restore'')
     \<and> (if ''backup'' = ''backup'' then full_export ctrl_ex ''/tmp/x.tar''
         else full_import ctrl_ex ''/tmp/x.tar'')
           = (''running'', (''a'', ''files''), 10) # tl (export_ex ''/tmp/x.tar'')"
    by (simp add: st_idle_def BackupRestoreJob_init_def kwargs_backup_def ctrl_ex_def export_ex_def)
  have l: "board_field (brd (st_idle board_leftover)) ''backup_restore'' ''error''
             = Some (PyStr ''disk full'')"
    by (simp add: st_idle_def board_leftover_def board_field_def)
  note t = BackupRestoreJob_update_then_set [THEN mp, OF h, of cfg_empty kwargs_empty]
  from t have
    "''error'' \<notin> set [''state'', ''percent'', ''who'', ''tar_path'', ''what'', ''mode''] \<longrightarrow>
       board_field (brd (snd (BackupRestoreJob_run ctrl_ex cfg_empty kwargs_backup
          (st_idle board_leftover)))) ''backup_restore'' ''error''
       = board_field (brd (st_idle board_leftover)) ''backup_restore'' ''error''"
    by blast
  then have e1:
    "board_field (brd (snd (BackupRestoreJob_run ctrl_ex cfg_empty kwargs_backup
          (st_idle board_leftover)))) ''backup_restore'' ''error'' = Some (PyStr ''disk full'')"
    using l by simp
  from t have
    "''error'' \<notin> set [''state'', ''who'', ''what'', ''percent''] \<longrightarrow>
       board_field (brd (snd (BackupRestoreJob_run ctrl_ex cfg_empty kwargs_empty
           (snd (BackupRestoreJob_run ctrl_ex cfg_empty kwargs_backup (st_idle board_leftover))))))
        ''backup_restore'' ''error'' = None"
    by blast
  then have e2:
    "board_field (brd (snd (BackupRestoreJob_run ctrl_ex cfg_empty kwargs_empty
           (snd (BackupRestoreJob_run ctrl_ex cfg_empty kwargs_backup (st_idle board_leftover))))))
        ''backup_restore'' ''error'' = None"
    by simp
  have c1: "iterator (self (st_idle board_leftover)) = None"
    using h by blast
  have c2: "full_export ctrl_ex ''/tmp/x.tar''
              = (''running'', (''a'', ''files''), 10) # tl (export_ex ''/tmp/x.tar'')"
    by (simp add: ctrl_ex_def export_ex_def)
  have c5: "board_field (brd (snd (BackupRestoreJob_run ctrl_ex cfg_empty kwargs_backup
              (st_idle board_leftover)))) ''backup_restore'' ''tar_path'' = Some (PyStr ''/tmp/x.tar'')"
    using t by blast
  have c6: "board_field (brd (snd (BackupRestoreJob_run ctrl_ex cfg_empty kwargs_empty
              (snd (BackupRestoreJob_run ctrl_ex cfg_empty kwargs_backup (st_idle board_leftover))))))
              ''backup_restore'' ''tar_path'' = None"
    using t by blast
  show ?thesis
    using c1 c2 l e1 c5 c6 e2 by blast
qed

end
